theory Spec2Isabelle
  imports Complex_Main "HOL-Library.Sublist" "HOL-Library.AList"
begin

section \<open>The JavaScript values the client computes with\<close>

text \<open>
  Identifiers of the API (\<open>skill_id\<close>, \<open>role_id\<close>, \<open>staff_id\<close>, the route parameter) are
  whole numbers; they are modelled as \<open>int\<close>. Strings are \<open>string\<close>. A value that may be
  \<open>undefined\<close> is an \<open>option\<close>, with \<open>None\<close> for \<open>undefined\<close>.
\<close>

subsection \<open>Thrown values and promises\<close>

text \<open>
  The values the code throws or that the host rejects a promise with. A promise that has
  settled is a sum: \<open>Inl\<close> the rejection, \<open>Inr\<close> the value.
\<close>

datatype js_error = Error string | TypeError string | SyntaxError string

fun message :: "js_error \<Rightarrow> string" where
  "message (Error m) = m"
| "message (TypeError m) = m"
| "message (SyntaxError m) = m"

text \<open>\<open>p.then(f)\<close> and \<open>p.catch(h)\<close> on a settled promise; a callback that throws returns \<open>Inl\<close>.\<close>

definition then_p :: "js_error + 'a \<Rightarrow> ('a \<Rightarrow> js_error + 'b) \<Rightarrow> js_error + 'b" where
  "then_p p f = (case p of Inl err \<Rightarrow> Inl err | Inr v \<Rightarrow> f v)"

definition catch_p :: "js_error + 'a \<Rightarrow> (js_error \<Rightarrow> js_error + 'a) \<Rightarrow> js_error + 'a" where
  "catch_p p h = (case p of Inl err \<Rightarrow> h err | Inr v \<Rightarrow> Inr v)"

text \<open>\<open>String(x)\<close> and \<open>x || ""\<close> of a string that may be \<open>undefined\<close>.\<close>

definition String_opt :: "string option \<Rightarrow> string" where
  "String_opt x = (case x of None \<Rightarrow> ''undefined'' | Some s \<Rightarrow> s)"

definition or_empty :: "string option \<Rightarrow> string" where
  "or_empty x = (case x of None \<Rightarrow> [] | Some s \<Rightarrow> if s \<noteq> [] then s else [])"

subsection \<open>The Fetch API: requests and responses\<close>

text \<open>
  A JSON value of a request body. \<open>JSON.stringify\<close> writes an object as its keys and values
  in insertion order; the body is kept as that list rather than as its text.
\<close>

datatype json = JNull | JNumber int | JString string

text \<open>What \<open>console.log\<close> was called with.\<close>

datatype log_entry = LogJson "(string \<times> json) list" | LogError string js_error

text \<open>A call of \<open>fetch(url, {method, headers, body})\<close>; a request with no body has \<open>None\<close>.\<close>

record Request =
  url :: string
  http_method :: string
  headers :: "(string \<times> string) list"
  body :: "(string \<times> json) list option"

text \<open>
  A response carries its status line and what \<open>res.json()\<close> settles to: the decoded body,
  or the rejection of a body that is not JSON. The type of the body is a parameter: the
  handlers are first modelled on a body of the type the code declares for it, then on any
  JSON value. \<open>res.ok\<close> is the Fetch API's: the status is in 200..299.
\<close>

record 'a Response =
  status :: nat
  statusText :: string
  json :: "js_error + 'a"

definition ok :: "'a Response \<Rightarrow> bool" where
  "ok res = (200 \<le> status res \<and> status res \<le> 299)"

text \<open>The promise \<open>fetch\<close> returns: rejected (no response at all) or resolved with a response.\<close>

type_synonym 'a fetch_result = "js_error + 'a Response"

subsection \<open>Numbers as decimal strings\<close>

definition is_digit :: "char \<Rightarrow> bool" where
  "is_digit c = (c \<in> set ''0123456789'')"

definition digit_char :: "nat \<Rightarrow> char" where
  "digit_char d = ''0123456789'' ! (d mod 10)"

definition digit_val :: "char \<Rightarrow> nat" where
  "digit_val c = length (takeWhile (\<lambda>d. d \<noteq> c) ''0123456789'')"

function nat_toString :: "nat \<Rightarrow> string" where
  "nat_toString n =
     (if n < 10 then [digit_char n] else nat_toString (n div 10) @ [digit_char (n mod 10)])"
  by pat_completeness auto
termination
  by (relation "measure (\<lambda>n. n)") auto

declare nat_toString.simps [simp del]

text \<open>
  \<open>String(n)\<close>, \<open>n.toString()\<close> and \<open>`${n}`\<close> of a whole number \<open>n\<close> (below \<open>10 ^ 21\<close> in
  magnitude, where the language writes all the digits).
\<close>

definition Number_toString :: "int \<Rightarrow> string" where
  "Number_toString i =
     (if i < 0 then CHR ''-'' # nat_toString (nat (- i)) else nat_toString (nat i))"

definition digits_value :: "string \<Rightarrow> int" where
  "digits_value ds = foldl (\<lambda>acc c. 10 * acc + int (digit_val c)) 0 ds"

text \<open>
  The white space \<open>parseInt\<close> skips: the language's \<open>WhiteSpace\<close> and \<open>LineTerminator\<close> code
  points, each as the bytes of its UTF-8 encoding, the encoding a \<open>string\<close> holds here.
  They are U+0009 to U+000D, U+0020, U+00A0, U+1680, U+2000 to U+200A, U+2028, U+2029,
  U+202F, U+205F, U+3000 and U+FEFF.
\<close>

definition StrWhiteSpaceChar :: "string list" where
  "StrWhiteSpaceChar =
     [[CHR 0x09], [CHR 0x0A], [CHR 0x0B], [CHR 0x0C], [CHR 0x0D], [CHR 0x20],
      [CHR 0xC2, CHR 0xA0], [CHR 0xE1, CHR 0x9A, CHR 0x80],
      [CHR 0xE2, CHR 0x80, CHR 0x80], [CHR 0xE2, CHR 0x80, CHR 0x81],
      [CHR 0xE2, CHR 0x80, CHR 0x82], [CHR 0xE2, CHR 0x80, CHR 0x83],
      [CHR 0xE2, CHR 0x80, CHR 0x84], [CHR 0xE2, CHR 0x80, CHR 0x85],
      [CHR 0xE2, CHR 0x80, CHR 0x86], [CHR 0xE2, CHR 0x80, CHR 0x87],
      [CHR 0xE2, CHR 0x80, CHR 0x88], [CHR 0xE2, CHR 0x80, CHR 0x89],
      [CHR 0xE2, CHR 0x80, CHR 0x8A], [CHR 0xE2, CHR 0x80, CHR 0xA8],
      [CHR 0xE2, CHR 0x80, CHR 0xA9], [CHR 0xE2, CHR 0x80, CHR 0xAF],
      [CHR 0xE2, CHR 0x81, CHR 0x9F], [CHR 0xE3, CHR 0x80, CHR 0x80],
      [CHR 0xEF, CHR 0xBB, CHR 0xBF]]"

definition white_prefix :: "string \<Rightarrow> string option" where
  "white_prefix s = find (\<lambda>w. prefix w s) StrWhiteSpaceChar"

function trim_white :: "string \<Rightarrow> string" where
  "trim_white s =
     (case white_prefix s of None \<Rightarrow> s | Some w \<Rightarrow> trim_white (drop (length w) s))"
  by pat_completeness auto
termination
proof (relation "measure length")
  show "wf (measure length)" by simp
next
  fix s w
  assume "white_prefix s = Some w"
  then have "w \<in> set StrWhiteSpaceChar" and p: "prefix w s"
    by (auto simp: white_prefix_def find_Some_iff)
  then have "w \<noteq> []" by (auto simp: StrWhiteSpaceChar_def)
  moreover from p have "length w \<le> length s" by (rule prefix_length_le)
  ultimately show "(drop (length w) s, s) \<in> measure length" by (cases w) auto
qed

declare trim_white.simps [simp del]

text \<open>
  The number value of a whole number that is not negative: the nearest double, a tie
  going to the even significand, and \<open>None\<close> when that is beyond the largest double
  (\<open>Infinity\<close>). Below \<open>2 ^ 53\<close> every whole number is a double.
\<close>

function bit_length :: "int \<Rightarrow> nat" where
  "bit_length n = (if n \<le> 0 then 0 else Suc (bit_length (n div 2)))"
  by pat_completeness auto
termination
  by (relation "measure nat") auto

declare bit_length.simps [simp del]

definition to_double :: "int \<Rightarrow> int option" where
  "to_double n =
     (if n < 2 ^ 53 then Some n
      else let e = bit_length n - 53;
               q = n div 2 ^ e;
               r = n mod 2 ^ e;
               q' = (if 2 ^ e < 2 * r \<or> (2 * r = 2 ^ e \<and> odd q) then q + 1 else q)
           in if 2 ^ 1024 \<le> q' * 2 ^ e then None else Some (q' * 2 ^ e))"

text \<open>
  A number as \<open>parseInt\<close> returns it: \<open>NaN\<close>, an infinity, or a double that is a whole
  number (\<open>-0\<close> is \<open>Finite 0\<close>: \<open>JSON.stringify\<close> writes both as \<open>0\<close>).
\<close>

datatype number = NaN | PlusInfinity | MinusInfinity | Finite int

text \<open>
  \<open>parseInt(s, 10)\<close>: leading white space is skipped, one sign is read, then the longest
  run of decimal digits; what follows the digits is ignored. With no digit the result is
  \<open>NaN\<close>; otherwise it is the number value of the digits' integer, correctly rounded (the
  language leaves the digits after the twentieth to the implementation; the engines round
  the whole integer).
\<close>

definition parseInt :: "string \<Rightarrow> number" where
  "parseInt s =
     (let s1 = trim_white s;
          negative = (case s1 of [] \<Rightarrow> False | c # _ \<Rightarrow> c = CHR ''-'');
          s2 = (case s1 of [] \<Rightarrow> []
                | c # cs \<Rightarrow> if c = CHR ''-'' \<or> c = CHR ''+'' then cs else s1);
          ds = takeWhile is_digit s2
      in if ds = [] then NaN
         else (case to_double (digits_value ds) of
                 None \<Rightarrow> if negative then MinusInfinity else PlusInfinity
               | Some v \<Rightarrow> Finite (if negative then - v else v)))"

text \<open>\<open>JSON.stringify\<close> of a number: \<open>NaN\<close> and the infinities are written \<open>null\<close>.\<close>

definition JSON_number :: "number \<Rightarrow> json" where
  "JSON_number n = (case n of Finite i \<Rightarrow> JNumber i | _ \<Rightarrow> JNull)"

subsection \<open>Strings and dates\<close>

text \<open>\<open>s.padStart(targetLength, padString)\<close>.\<close>

definition padStart :: "string \<Rightarrow> nat \<Rightarrow> string \<Rightarrow> string" where
  "padStart s targetLength padString =
     (if targetLength \<le> length s \<or> padString = [] then s
      else take (targetLength - length s)
             (concat (replicate (targetLength - length s) padString)) @ s)"

text \<open>
  A \<open>Date\<close> is read by the code through its UTC getters only; it is modelled as what they
  return. \<open>valid_Date\<close> gives the ranges the language fixes for a date that is not
  \<open>Invalid Date\<close>: months count from 0, and the time value is within 8.64e15 ms of the
  epoch, which bounds the year.
\<close>

record Date =
  getUTCFullYear :: int
  getUTCMonth :: int
  getUTCDate :: int
  getUTCHours :: int
  getUTCMinutes :: int
  getUTCSeconds :: int

definition valid_Date :: "Date \<Rightarrow> bool" where
  "valid_Date d =
     (- 271821 \<le> getUTCFullYear d \<and> getUTCFullYear d \<le> 275760
      \<and> 0 \<le> getUTCMonth d \<and> getUTCMonth d \<le> 11
      \<and> 1 \<le> getUTCDate d \<and> getUTCDate d \<le> 31
      \<and> 0 \<le> getUTCHours d \<and> getUTCHours d \<le> 23
      \<and> 0 \<le> getUTCMinutes d \<and> getUTCMinutes d \<le> 59
      \<and> 0 \<le> getUTCSeconds d \<and> getUTCSeconds d \<le> 59)"

text \<open>
  A string against a mask: \<open>D\<close> in the mask stands for one decimal digit, every other
  character for itself. \<open>YYYY-MM-DDTHH:mm:ss\<close> is the mask \<open>DDDD-DD-DDTDD:DD:DD\<close>.
\<close>

fun matches_mask :: "string \<Rightarrow> string \<Rightarrow> bool" where
  "matches_mask [] [] = True"
| "matches_mask (m # ms) (c # cs) =
     ((if m = CHR ''D'' then is_digit c else c = m) \<and> matches_mask ms cs)"
| "matches_mask _ _ = False"

definition iso_naive_mask :: string where
  "iso_naive_mask = ''DDDD-DD-DDTDD:DD:DD''"

section \<open>The role page: role-page.tsx and roles/[roleid]/page.tsx\<close>

record skill =
  skill_id :: int
  skill_name :: string

record SkillMatchType =
  active :: "skill list"
  in_progress :: "skill list"
  unverified :: "skill list"

record SkillMatchAPIResponse =
  match :: SkillMatchType

record SkillInfo =
  skillObtained :: "string list"
  skillMissing :: "string list"

record PageData =
  roleid :: int
  roleName_pd :: string
  roleDescription_pd :: string
  skillsRequired :: "string list"
  roleDepartment :: string
  roleLocation :: string
  roleListingDesc :: string

subsection \<open>RoleListing and fetchRoleSkillMatch\<close>

text \<open>
  The state of the \<open>RoleListing\<close> component: its two \<open>useState\<close> slices, and the console
  the handler logs to.
\<close>

record RoleListing_state =
  roleInfo :: PageData
  skillInfo :: "SkillInfo option"
  console :: "log_entry list"

text \<open>
  The request of \<open>fetchRoleSkillMatch\<close>. Its \<open>headers\<close> option is commented out in the
  source, so the request carries none.
\<close>

definition fetchRoleSkillMatch_request :: "int \<Rightarrow> RoleListing_state \<Rightarrow> Request" where
  "fetchRoleSkillMatch_request staffId st =
     \<lparr>url = ''/api/staff/role-skills-match/'' @ Number_toString staffId @ ''/''
              @ Number_toString (roleid (roleInfo st)),
      http_method = ''GET'',
      headers = [],
      body = None\<rparr>"

text \<open>The first \<open>.then\<close>: a response that is not ok throws, otherwise the body is decoded.\<close>

definition fetchRoleSkillMatch_then1 :: "'a Response \<Rightarrow> js_error + 'a" where
  "fetchRoleSkillMatch_then1 res =
     (if \<not> ok res then Inl (Error ''Network error'') else json res)"

text \<open>The second \<open>.then\<close>: the three-way partition becomes the two lists of names.\<close>

definition fetchRoleSkillMatch_then2 ::
  "SkillMatchAPIResponse \<Rightarrow> RoleListing_state \<Rightarrow> js_error + RoleListing_state" where
  "fetchRoleSkillMatch_then2 apiData st =
     (let obtained = active (match apiData) @ in_progress (match apiData);
          temp = \<lparr>skillObtained = map skill_name obtained,
                  skillMissing = map skill_name (unverified (match apiData))\<rparr>
      in Inr (st\<lparr>skillInfo := Some temp\<rparr>))"

text \<open>The \<open>.catch\<close>: the error is logged, nothing else.\<close>

definition fetchRoleSkillMatch_catch ::
  "js_error \<Rightarrow> RoleListing_state \<Rightarrow> js_error + RoleListing_state" where
  "fetchRoleSkillMatch_catch err st =
     Inr (st\<lparr>console := console st @ [LogError ''Error fetching role details:'' err]\<rparr>)"

text \<open>
  The whole chain \<open>fetch(...).then(...).then(...).catch(...)\<close>, run on what the fetch settled
  to. The result is the promise the chain ends in: \<open>Inr\<close> the component's state when it
  is fulfilled, \<open>Inl\<close> an error nothing caught.
\<close>

definition fetchRoleSkillMatch ::
  "SkillMatchAPIResponse fetch_result \<Rightarrow> RoleListing_state \<Rightarrow> js_error + RoleListing_state" where
  "fetchRoleSkillMatch settled st =
     catch_p
       (then_p (then_p settled fetchRoleSkillMatch_then1)
          (\<lambda>apiData. fetchRoleSkillMatch_then2 apiData st))
       (\<lambda>err. fetchRoleSkillMatch_catch err st)"

text \<open>What \<open>RoleListing\<close> renders: the quick info, and the skill match or its placeholder.\<close>

datatype SkillMatch_view = Loading | SkillMatch SkillInfo

record RoleListing_view =
  quickInfo :: PageData
  skillMatch :: SkillMatch_view

definition RoleListing_render :: "RoleListing_state \<Rightarrow> RoleListing_view" where
  "RoleListing_render st =
     \<lparr>quickInfo = roleInfo st,
      skillMatch = (case skillInfo st of None \<Rightarrow> Loading | Some si \<Rightarrow> SkillMatch si)\<rparr>"

subsection \<open>RolePage and fetchRoles\<close>

record SpecificRoleInfo =
  role_name :: string
  role_desc :: string
  skills :: "skill list"
  role_department :: string
  role_location :: string
  role_listing_desc :: string

text \<open>\<open>RoleAPIResponse\<close>: an object keyed by the number of a role listing.\<close>

type_synonym RoleAPIResponse = "int \<Rightarrow> SpecificRoleInfo option"

record RolePage_state =
  data :: "PageData option"
  console_page :: "log_entry list"

definition fetchRoles_request :: "string option \<Rightarrow> string option \<Rightarrow> Request" where
  "fetchRoles_request userToken userRole =
     \<lparr>url = ''/api/role/role_listings_info'',
      http_method = ''GET'',
      headers = [(''user-token'', or_empty userToken),
                 (''role'', String_opt (Some (or_empty userRole)))],
      body = None\<rparr>"

definition fetchRoles_then1 :: "'a Response \<Rightarrow> js_error + 'a" where
  "fetchRoles_then1 res =
     (if \<not> ok res then Inl (Error ''Network error'') else json res)"

text \<open>
  The second \<open>.then\<close>. \<open>apiData[Number(props.params.roleid)]\<close> is \<open>undefined\<close> when the
  object has no such key, and reading \<open>role_name\<close> of it throws a \<open>TypeError\<close>, before
  \<open>setData\<close> is reached.
\<close>

definition fetchRoles_then2 ::
  "int \<Rightarrow> RoleAPIResponse \<Rightarrow> RolePage_state \<Rightarrow> js_error + RolePage_state" where
  "fetchRoles_then2 params_roleid apiData st =
     (case apiData params_roleid of
        None \<Rightarrow> Inl (TypeError ''roleListingData is undefined'')
      | Some roleListingData \<Rightarrow>
          (let temp = \<lparr>roleid = params_roleid,
                       roleName_pd = role_name roleListingData,
                       roleDescription_pd = role_desc roleListingData,
                       skillsRequired = map skill_name (skills roleListingData),
                       roleDepartment = role_department roleListingData,
                       roleLocation = role_location roleListingData,
                       roleListingDesc = role_listing_desc roleListingData\<rparr>
           in Inr (st\<lparr>data := Some temp\<rparr>)))"

definition fetchRoles_catch :: "js_error \<Rightarrow> RolePage_state \<Rightarrow> js_error + RolePage_state" where
  "fetchRoles_catch err st =
     Inr (st\<lparr>console_page := console_page st @ [LogError ''Error fetching role details:'' err]\<rparr>)"

definition fetchRoles ::
  "int \<Rightarrow> RoleAPIResponse fetch_result \<Rightarrow> RolePage_state \<Rightarrow> js_error + RolePage_state" where
  "fetchRoles params_roleid settled st =
     catch_p
       (then_p (then_p settled fetchRoles_then1)
          (\<lambda>apiData. fetchRoles_then2 params_roleid apiData st))
       (\<lambda>err. fetchRoles_catch err st)"

datatype RolePage_view = LoadingPage | RoleListingPage PageData

definition RolePage_render :: "RolePage_state \<Rightarrow> RolePage_view" where
  "RolePage_render st = (case data st of None \<Rightarrow> LoadingPage | Some d \<Rightarrow> RoleListingPage d)"

subsection \<open>The two handlers on any decoded body\<close>

text \<open>
  What \<open>res.json()\<close> resolves to is any JSON value, whatever type the code declares for it;
  a field may be missing or hold a value of another kind, and the callback then throws or
  goes on with \<open>undefined\<close>. The two second callbacks are modelled once more on such a
  value. A JSON number is a finite double, a real number; the callbacks never compute with
  one. \<open>JSFunction\<close> is a method of a prototype, which reading a property can give.
\<close>

datatype jsval =
  JSUndefined | JSNull | JSBoolean bool | JSNumber real | JSString string
| JSArray "jsval list" | JSObject "(string \<times> jsval) list" | JSFunction

text \<open>
  \<open>v.name\<close> for the property names the two callbacks read: \<open>match\<close>, \<open>active\<close>,
  \<open>in_progress\<close>, \<open>unverified\<close>, \<open>skill_name\<close>, \<open>role_name\<close>, \<open>role_desc\<close>, \<open>skills\<close>,
  \<open>role_department\<close>, \<open>role_location\<close> and \<open>role_listing_desc\<close>. Reading a property of
  \<open>undefined\<close> or \<open>null\<close> throws a \<open>TypeError\<close> (its message is the engine's); a decoded
  object has the properties of its text, each key once; of the names above only \<open>match\<close> is
  on a prototype, that of strings. Every other read gives \<open>undefined\<close>.
\<close>

definition get_property :: "jsval \<Rightarrow> string \<Rightarrow> js_error + jsval" where
  "get_property v name =
     (case v of
        JSUndefined \<Rightarrow> Inl (TypeError ''Cannot read properties of undefined'')
      | JSNull \<Rightarrow> Inl (TypeError ''Cannot read properties of null'')
      | JSObject props \<Rightarrow> Inr (case map_of props name of None \<Rightarrow> JSUndefined | Some x \<Rightarrow> x)
      | JSString _ \<Rightarrow> Inr (if name = ''match'' then JSFunction else JSUndefined)
      | _ \<Rightarrow> Inr JSUndefined)"

text \<open>
  \<open>v[i]\<close> for a whole number \<open>i\<close>: the property named by the decimal string of \<open>i\<close>, which
  for an array or a string is the element or the character at that index.
\<close>

definition get_index :: "jsval \<Rightarrow> int \<Rightarrow> js_error + jsval" where
  "get_index v i =
     (case v of
        JSUndefined \<Rightarrow> Inl (TypeError ''Cannot read properties of undefined'')
      | JSNull \<Rightarrow> Inl (TypeError ''Cannot read properties of null'')
      | JSObject props \<Rightarrow>
          Inr (case map_of props (Number_toString i) of None \<Rightarrow> JSUndefined | Some x \<Rightarrow> x)
      | JSArray xs \<Rightarrow> Inr (if 0 \<le> i \<and> nat i < length xs then xs ! nat i else JSUndefined)
      | JSString s \<Rightarrow> Inr (if 0 \<le> i \<and> nat i < length s then JSString [s ! nat i] else JSUndefined)
      | _ \<Rightarrow> Inr JSUndefined)"

text \<open>A callback applied to the elements of an array in order; the first throw ends it.\<close>

primrec map_p :: "('a \<Rightarrow> js_error + 'b) \<Rightarrow> 'a list \<Rightarrow> js_error + 'b list" where
  "map_p f [] = Inr []"
| "map_p f (x # xs) =
     (case f x of
        Inl err \<Rightarrow> Inl err
      | Inr y \<Rightarrow> (case map_p f xs of Inl err \<Rightarrow> Inl err | Inr ys \<Rightarrow> Inr (y # ys)))"

text \<open>
  \<open>v.map((skill) => skill.skill_name)\<close>: only an array has a \<open>map\<close> to call (a property
  \<open>map\<close> of a decoded object is not a function).
\<close>

definition map_skill_name :: "jsval \<Rightarrow> js_error + jsval list" where
  "map_skill_name v =
     (case v of
        JSUndefined \<Rightarrow> Inl (TypeError ''Cannot read properties of undefined'')
      | JSNull \<Rightarrow> Inl (TypeError ''Cannot read properties of null'')
      | JSArray xs \<Rightarrow> map_p (\<lambda>skill. get_property skill ''skill_name'') xs
      | _ \<Rightarrow> Inl (TypeError ''is not a function''))"

text \<open>
  \<open>a.concat(arg)\<close>. An array gives the array with the elements of \<open>arg\<close> appended when
  \<open>arg\<close> is an array, and with \<open>arg\<close> itself appended otherwise. A string gives a string,
  whose characters do not matter to what follows: a string has no \<open>map\<close>.
\<close>

datatype concat_result = ConcatArray "jsval list" | ConcatString

definition call_concat :: "jsval \<Rightarrow> jsval \<Rightarrow> js_error + concat_result" where
  "call_concat a arg =
     (case a of
        JSUndefined \<Rightarrow> Inl (TypeError ''Cannot read properties of undefined'')
      | JSNull \<Rightarrow> Inl (TypeError ''Cannot read properties of null'')
      | JSArray xs \<Rightarrow> Inr (ConcatArray (xs @ (case arg of JSArray ys \<Rightarrow> ys | _ \<Rightarrow> [arg])))
      | JSString _ \<Rightarrow> Inr ConcatString
      | _ \<Rightarrow> Inl (TypeError ''is not a function''))"

definition map_obtained :: "concat_result \<Rightarrow> js_error + jsval list" where
  "map_obtained obtained =
     (case obtained of
        ConcatArray xs \<Rightarrow> map_p (\<lambda>skill. get_property skill ''skill_name'') xs
      | ConcatString \<Rightarrow> Inl (TypeError ''is not a function''))"

text \<open>
  The state of \<open>RoleListing\<close> and of \<open>RolePage\<close> when the names and the role's fields are
  whatever the body held.
\<close>

record SkillInfo_js =
  skillObtained_js :: "jsval list"
  skillMissing_js :: "jsval list"

record PageData_js =
  roleid_js :: int
  roleName_js :: jsval
  roleDescription_js :: jsval
  skillsRequired_js :: "jsval list"
  roleDepartment_js :: jsval
  roleLocation_js :: jsval
  roleListingDesc_js :: jsval

record RoleListing_state_js =
  roleInfo_js :: PageData_js
  skillInfo_js :: "SkillInfo_js option"
  console_js :: "log_entry list"

record RolePage_state_js =
  data_js :: "PageData_js option"
  console_page_js :: "log_entry list"

text \<open>
  The second \<open>.then\<close> of \<open>fetchRoleSkillMatch\<close>, statement by statement; \<open>then_p\<close> passes the
  first throw on. (\<open>apiData.match\<close> is read once here and three times in the source, to the
  same value. A missing \<open>active\<close> throws at \<open>.concat\<close>, before \<open>in_progress\<close> is read; reading
  \<open>in_progress\<close> cannot throw once \<open>active\<close> was read.)
\<close>

definition fetchRoleSkillMatch_js_then2 ::
  "jsval \<Rightarrow> RoleListing_state_js \<Rightarrow> js_error + RoleListing_state_js" where
  "fetchRoleSkillMatch_js_then2 apiData st =
     then_p (get_property apiData ''match'') (\<lambda>m.
     then_p (get_property m ''active'') (\<lambda>a.
     then_p (get_property m ''in_progress'') (\<lambda>arg.
     then_p (call_concat a arg) (\<lambda>obtained.
     then_p (map_obtained obtained) (\<lambda>names.
     then_p (get_property m ''unverified'') (\<lambda>u.
     then_p (map_skill_name u) (\<lambda>missing.
     Inr (st\<lparr>skillInfo_js :=
               Some \<lparr>skillObtained_js = names, skillMissing_js = missing\<rparr>\<rparr>))))))))"

definition RoleListing_logged :: "js_error \<Rightarrow> RoleListing_state_js \<Rightarrow> RoleListing_state_js" where
  "RoleListing_logged err st =
     st\<lparr>console_js := console_js st @ [LogError ''Error fetching role details:'' err]\<rparr>"

definition fetchRoleSkillMatch_js ::
  "jsval fetch_result \<Rightarrow> RoleListing_state_js \<Rightarrow> js_error + RoleListing_state_js" where
  "fetchRoleSkillMatch_js settled st =
     catch_p
       (then_p (then_p settled fetchRoleSkillMatch_then1)
          (\<lambda>apiData. fetchRoleSkillMatch_js_then2 apiData st))
       (\<lambda>err. Inr (RoleListing_logged err st))"

text \<open>The second \<open>.then\<close> of \<open>fetchRoles\<close>, in the order the object literal is evaluated.\<close>

definition fetchRoles_js_then2 ::
  "int \<Rightarrow> jsval \<Rightarrow> RolePage_state_js \<Rightarrow> js_error + RolePage_state_js" where
  "fetchRoles_js_then2 params_roleid apiData st =
     then_p (get_index apiData params_roleid) (\<lambda>roleListingData.
     then_p (get_property roleListingData ''role_name'') (\<lambda>name.
     then_p (get_property roleListingData ''role_desc'') (\<lambda>desc.
     then_p (get_property roleListingData ''skills'') (\<lambda>skills'.
     then_p (map_skill_name skills') (\<lambda>names.
     then_p (get_property roleListingData ''role_department'') (\<lambda>department.
     then_p (get_property roleListingData ''role_location'') (\<lambda>location'.
     then_p (get_property roleListingData ''role_listing_desc'') (\<lambda>listing_desc.
     Inr (st\<lparr>data_js :=
               Some \<lparr>roleid_js = params_roleid, roleName_js = name,
                     roleDescription_js = desc, skillsRequired_js = names,
                     roleDepartment_js = department, roleLocation_js = location',
                     roleListingDesc_js = listing_desc\<rparr>\<rparr>)))))))))"

definition RolePage_logged :: "js_error \<Rightarrow> RolePage_state_js \<Rightarrow> RolePage_state_js" where
  "RolePage_logged err st =
     st\<lparr>console_page_js := console_page_js st @ [LogError ''Error fetching role details:'' err]\<rparr>"

definition fetchRoles_js ::
  "int \<Rightarrow> jsval fetch_result \<Rightarrow> RolePage_state_js \<Rightarrow> js_error + RolePage_state_js" where
  "fetchRoles_js params_roleid settled st =
     catch_p
       (then_p (then_p settled fetchRoles_then1)
          (\<lambda>apiData. fetchRoles_js_then2 params_roleid apiData st))
       (\<lambda>err. Inr (RolePage_logged err st))"

text \<open>
  What the two components render: the placeholder while the slice is undefined. For
  \<open>RoleListing\<close> the first component is the data of the quick info.
\<close>

datatype 'a rendered = Placeholder | Shown 'a

definition RoleListing_render_js :: "RoleListing_state_js \<Rightarrow> PageData_js \<times> SkillInfo_js rendered" where
  "RoleListing_render_js st =
     (roleInfo_js st, case skillInfo_js st of None \<Rightarrow> Placeholder | Some si \<Rightarrow> Shown si)"

definition RolePage_render_js :: "RolePage_state_js \<Rightarrow> PageData_js rendered" where
  "RolePage_render_js st = (case data_js st of None \<Rightarrow> Placeholder | Some d \<Rightarrow> Shown d)"

text \<open>A body of the declared type, and the typed states, as such values.\<close>

definition skill_js :: "skill \<Rightarrow> jsval" where
  "skill_js s =
     JSObject [(''skill_id'', JSNumber (of_int (skill_id s))),
               (''skill_name'', JSString (skill_name s))]"

definition SkillMatchAPIResponse_js :: "SkillMatchAPIResponse \<Rightarrow> jsval" where
  "SkillMatchAPIResponse_js apiData =
     JSObject [(''match'',
       JSObject [(''active'', JSArray (map skill_js (active (match apiData)))),
                 (''in_progress'', JSArray (map skill_js (in_progress (match apiData)))),
                 (''unverified'', JSArray (map skill_js (unverified (match apiData))))])]"

definition SpecificRoleInfo_js :: "SpecificRoleInfo \<Rightarrow> jsval" where
  "SpecificRoleInfo_js r =
     JSObject [(''role_name'', JSString (role_name r)),
               (''role_desc'', JSString (role_desc r)),
               (''skills'', JSArray (map skill_js (skills r))),
               (''role_department'', JSString (role_department r)),
               (''role_location'', JSString (role_location r)),
               (''role_listing_desc'', JSString (role_listing_desc r))]"

definition Response_js :: "('a \<Rightarrow> jsval) \<Rightarrow> 'a Response \<Rightarrow> jsval Response" where
  "Response_js f res =
     \<lparr>status = status res, statusText = statusText res, json = map_sum id f (json res)\<rparr>"

definition PageData_to_js :: "PageData \<Rightarrow> PageData_js" where
  "PageData_to_js d =
     \<lparr>roleid_js = roleid d, roleName_js = JSString (roleName_pd d),
      roleDescription_js = JSString (roleDescription_pd d),
      skillsRequired_js = map JSString (skillsRequired d),
      roleDepartment_js = JSString (roleDepartment d),
      roleLocation_js = JSString (roleLocation d),
      roleListingDesc_js = JSString (roleListingDesc d)\<rparr>"

definition SkillInfo_to_js :: "SkillInfo \<Rightarrow> SkillInfo_js" where
  "SkillInfo_to_js si =
     \<lparr>skillObtained_js = map JSString (skillObtained si),
      skillMissing_js = map JSString (skillMissing si)\<rparr>"

definition RoleListing_state_to_js :: "RoleListing_state \<Rightarrow> RoleListing_state_js" where
  "RoleListing_state_to_js st =
     \<lparr>roleInfo_js = PageData_to_js (roleInfo st),
      skillInfo_js = map_option SkillInfo_to_js (skillInfo st),
      console_js = console st\<rparr>"

definition RolePage_state_to_js :: "RolePage_state \<Rightarrow> RolePage_state_js" where
  "RolePage_state_to_js st =
     \<lparr>data_js = map_option PageData_to_js (data st), console_page_js = console_page st\<rparr>"

section \<open>The create-role form: RoleForm.tsx\<close>

record select_option =
  value_s :: string
  label :: string

text \<open>
  \<open>RoleFormValues\<close>: the validated form data that \<open>handleSubmit\<close> passes to \<open>onSubmit\<close>. The
  schema and the type are not among the sources; the fields are those \<open>onSubmit\<close> and the
  form read, every one defined.
\<close>

record RoleFormValues =
  listingId :: int
  roleName :: string
  roleDescription :: string
  roleManager :: string
  location :: string
  departments :: string
  skills_f :: "select_option list"
  startDate :: Date

definition formatDateToISOWithoutZ :: "Date \<Rightarrow> string" where
  "formatDateToISOWithoutZ d =
     Number_toString (getUTCFullYear d) @ ''-''
     @ padStart (Number_toString (getUTCMonth d + 1)) 2 ''0'' @ ''-''
     @ padStart (Number_toString (getUTCDate d)) 2 ''0'' @ ''T''
     @ padStart (Number_toString (getUTCHours d)) 2 ''0'' @ '':''
     @ padStart (Number_toString (getUTCMinutes d)) 2 ''0'' @ '':''
     @ padStart (Number_toString (getUTCSeconds d)) 2 ''0''"

text \<open>
  \<open>transformedData\<close> of \<open>onSubmit\<close>, as \<open>JSON.stringify\<close> writes it. \<open>staffId\<close> is the value
  of the \<open>AuthContext\<close> (not among the sources): the staff number of the signed-in user.
\<close>

definition transformedData :: "int \<Rightarrow> RoleFormValues \<Rightarrow> (string \<times> json) list" where
  "transformedData staffId d =
     [(''role_listing_id'', JNumber (listingId d)),
      (''role_id'', JSON_number (parseInt (roleName d))),
      (''role_listing_desc'', JString (roleDescription d)),
      (''role_listing_source'', JSON_number (parseInt (roleManager d))),
      (''role_listing_open'', JString (formatDateToISOWithoutZ (startDate d))),
      (''role_listing_creator'', JNumber staffId),
      (''role_department'', JString (departments d)),
      (''role_location'', JString (location d))]"

definition onSubmit_request :: "int \<Rightarrow> string option \<Rightarrow> RoleFormValues \<Rightarrow> Request" where
  "onSubmit_request staffId userRole d =
     \<lparr>url = ''/api/role/role_listing'',
      http_method = ''POST'',
      headers = [(''Content-Type'', ''application/json''), (''role'', String_opt userRole)],
      body = Some (transformedData staffId d)\<rparr>"

datatype toast_variant = Default | Destructive

record toast =
  variant :: toast_variant
  title :: string
  description :: string
  action :: string

text \<open>
  The form library keeps the field values by field name; \<open>form.setValue(name, v)\<close> stores
  one. The state of \<open>RoleForm\<close> is these values, its two \<open>useState\<close> slices, the toasts
  shown, the console and the requests \<open>fetch\<close> was called with.
\<close>

datatype field_value =
  FNumber int | FString string | FOptions "select_option list" | FDate Date

record StaffIdAPIResponse =
  staff_id :: int
  fname :: string
  lname :: string

record RoleForm_state =
  form :: "(string \<times> field_value) list"
  skillIdList :: "skill list"
  managerDetails :: "StaffIdAPIResponse list"
  toasts :: "toast list"
  console_form :: "log_entry list"
  fetched :: "Request list"

definition setValue :: "string \<Rightarrow> field_value \<Rightarrow> RoleForm_state \<Rightarrow> RoleForm_state" where
  "setValue name v st = st\<lparr>form := AList.update name v (form st)\<rparr>"

text \<open>The synchronous part of \<open>onSubmit\<close>: the body is logged and \<open>fetch\<close> is called once.\<close>

definition onSubmit ::
  "int \<Rightarrow> string option \<Rightarrow> RoleFormValues \<Rightarrow> RoleForm_state \<Rightarrow> RoleForm_state" where
  "onSubmit staffId userRole d st =
     st\<lparr>console_form := console_form st @ [LogJson (transformedData staffId d)],
        fetched := fetched st @ [onSubmit_request staffId userRole d]\<rparr>"

text \<open>The chain on the promise of that \<open>fetch\<close>.\<close>

definition onSubmit_then1 :: "'a Response \<Rightarrow> js_error + 'a" where
  "onSubmit_then1 res = (if \<not> ok res then Inl (Error (statusText res)) else json res)"

definition onSubmit_then2 :: "string \<Rightarrow> RoleForm_state \<Rightarrow> js_error + RoleForm_state" where
  "onSubmit_then2 formattedDate st =
     Inr (st\<lparr>toasts := toasts st @
            [\<lparr>variant = Default, title = ''Role Successfully Created!'',
              description = formattedDate, action = ''Dismiss''\<rparr>]\<rparr>)"

definition onSubmit_catch :: "js_error \<Rightarrow> RoleForm_state \<Rightarrow> js_error + RoleForm_state" where
  "onSubmit_catch err st =
     Inr (st\<lparr>toasts := toasts st @
            [\<lparr>variant = Destructive, title = ''Error creating role!'',
              description = message err, action = ''Dismiss''\<rparr>]\<rparr>)"

definition onSubmit_settled ::
  "string \<Rightarrow> 'a fetch_result \<Rightarrow> RoleForm_state \<Rightarrow> js_error + RoleForm_state" where
  "onSubmit_settled formattedDate settled st =
     catch_p
       (then_p (then_p settled onSubmit_then1) (\<lambda>_. onSubmit_then2 formattedDate st))
       (\<lambda>err. onSubmit_catch err st)"

text \<open>
  The effect on \<open>[roleSkillsData, allSkills]\<close>: the catalogue is restricted to the skills of
  the selected role, kept in \<open>skillIdList\<close> and written to the form's \<open>skills\<close> field.
\<close>

record RoleSkillAPIResponse =
  role_skills :: "skill list option"

definition skills_effect ::
  "RoleSkillAPIResponse option \<Rightarrow> skill list option \<Rightarrow> RoleForm_state \<Rightarrow> RoleForm_state" where
  "skills_effect roleSkillsData allSkills st =
     (case roleSkillsData of
        None \<Rightarrow> st
      | Some rsd \<Rightarrow>
          (case allSkills of
             None \<Rightarrow> st
           | Some catalogue \<Rightarrow>
               (case map_option (map skill_id) (role_skills rsd) of
                  None \<Rightarrow> st
                | Some associatedSkillIds \<Rightarrow>
                    (let filteredSkills =
                           filter (\<lambda>skill. skill_id skill \<in> set associatedSkillIds)
                             catalogue
                     in setValue ''skills''
                          (FOptions
                             (map (\<lambda>skill. \<lparr>value_s = Number_toString (skill_id skill),
                                             label = skill_name skill\<rparr>)
                                filteredSkills))
                          (st\<lparr>skillIdList := filteredSkills\<rparr>)))))"

section \<open>The data table toolbar\<close>

text \<open>
  A table of the table library, as the toolbar reads it: its columns (each with its
  identifier and its current filter value), its column filters and its rows.
  \<open>table.getColumn(id)\<close> is the column with that identifier, or \<open>undefined\<close>.
\<close>

record table_column =
  column_id :: string
  getFilterValue :: "string option"

record 'r Table =
  getAllColumns :: "table_column list"
  columnFilters :: "(string \<times> string) list"
  getRowModel :: "'r list"

definition getColumn :: "'r Table \<Rightarrow> string \<Rightarrow> table_column option" where
  "getColumn table' cid = find (\<lambda>c. column_id c = cid) (getAllColumns table')"

record DataTableSearchableColumn =
  id_s :: string
  title_s :: string

record DataTableFilterableColumn =
  id_f :: string
  title_f :: string
  options :: "select_option list"

datatype 'r toolbar_control =
  Input string string string
| DataTableFacetedFilter string table_column "'r list" "table_column option"
    "select_option list" string
| ResetButton

text \<open>\<open>column.id ? String(column.id) : ""\<close>: the empty string is the falsy identifier.\<close>

definition id_or_empty :: "string \<Rightarrow> string" where
  "id_or_empty cid = (if cid \<noteq> [] then cid else [])"

definition search_control :: "'r Table \<Rightarrow> DataTableSearchableColumn \<Rightarrow> 'r toolbar_control list" where
  "search_control table' column =
     (case getColumn table' (id_or_empty (id_s column)) of
        None \<Rightarrow> []
      | Some _ \<Rightarrow>
          [Input (id_s column) (''Filter '' @ title_s column @ ''...'')
             (case getColumn table' (id_s column) of
                None \<Rightarrow> []
              | Some c \<Rightarrow> (case getFilterValue c of None \<Rightarrow> [] | Some v \<Rightarrow> v))])"

definition filter_control :: "'r Table \<Rightarrow> DataTableFilterableColumn \<Rightarrow> 'r toolbar_control list" where
  "filter_control table' column =
     (case getColumn table' (id_or_empty (id_f column)) of
        None \<Rightarrow> []
      | Some c \<Rightarrow>
          [DataTableFacetedFilter (id_f column) c (getRowModel table')
             (getColumn table' ''roleName'') (options column) (title_f column)])"

text \<open>The children the toolbar renders, in order; what is \<open>false\<close> or \<open>undefined\<close> renders nothing.\<close>

definition DataTableToolbar ::
  "'r Table \<Rightarrow> DataTableFilterableColumn list \<Rightarrow> DataTableSearchableColumn list
     \<Rightarrow> 'r toolbar_control list" where
  "DataTableToolbar table' filterableColumns searchableColumns =
     (let isFiltered = length (columnFilters table') > 0
      in (if length searchableColumns > 0
          then concat (map (search_control table') searchableColumns) else [])
         @ (if length filterableColumns > 0
            then concat (map (filter_control table') filterableColumns) else [])
         @ (if isFiltered then [ResetButton] else []))"

text \<open>The column identifier a rendered control is for.\<close>

fun control_column :: "'r toolbar_control \<Rightarrow> string option" where
  "control_column (Input k _ _) = Some k"
| "control_column (DataTableFacetedFilter k _ _ _ _ _) = Some k"
| "control_column ResetButton = None"

section \<open>The date-range picker\<close>

text \<open>
  A \<open>DateRange\<close> object. React compares an effect's dependencies with \<open>Object.is\<close>: two
  objects are the same when they are one object, whatever their fields hold, so an object
  carries its identity \<open>ref\<close>.
\<close>

record DateRange =
  ref :: nat
  from_d :: "Date option"
  to_d :: "Date option"

definition Object_is :: "DateRange option \<Rightarrow> DateRange option \<Rightarrow> bool" where
  "Object_is a b =
     (case a of
        None \<Rightarrow> (case b of None \<Rightarrow> True | Some _ \<Rightarrow> False)
      | Some x \<Rightarrow> (case b of None \<Rightarrow> False | Some y \<Rightarrow> ref x = ref y))"

text \<open>
  The state of \<open>DatePickerWithRange\<close>: the \<open>date\<close> slice, and the dependency \<open>[value]\<close> its
  effect last ran with, which React keeps to decide whether the effect runs again.
\<close>

record DatePicker_state =
  date :: "DateRange option"
  effect_deps :: "DateRange option"

text \<open>Mount: \<open>useState(value)\<close>, then the effect runs for the first time.\<close>

definition DatePicker_mount :: "DateRange option \<Rightarrow> DatePicker_state" where
  "DatePicker_mount v = \<lparr>date = v, effect_deps = v\<rparr>"

text \<open>A render with the prop \<open>value\<close>: the effect \<open>setDate(value)\<close> runs if \<open>value\<close> changed.\<close>

definition DatePicker_render :: "DateRange option \<Rightarrow> DatePicker_state \<Rightarrow> DatePicker_state" where
  "DatePicker_render v st =
     (if Object_is v (effect_deps st) then st else st\<lparr>date := v, effect_deps := v\<rparr>)"

text \<open>
  \<open>handleDateChange\<close>: the selection is stored, and \<open>onChange\<close> is called with it when the
  prop is given. The second component lists the calls of \<open>onChange\<close>.
\<close>

definition handleDateChange ::
  "bool \<Rightarrow> DateRange option \<Rightarrow> DatePicker_state \<Rightarrow> DatePicker_state \<times> DateRange option list" where
  "handleDateChange has_onChange selectedDateRange st =
     (st\<lparr>date := selectedDateRange\<rparr>, if has_onChange then [selectedDateRange] else [])"

text \<open>
  The text of the button, with \<open>fmt\<close> for the date library's \<open>format(d, "LLL dd, y")\<close>.
\<close>

definition DatePicker_label :: "(Date \<Rightarrow> string) \<Rightarrow> DatePicker_state \<Rightarrow> string" where
  "DatePicker_label fmt st =
     (case date st of
        None \<Rightarrow> ''Pick a date''
      | Some r \<Rightarrow>
          (case from_d r of
             None \<Rightarrow> ''Pick a date''
           | Some f \<Rightarrow>
               (case to_d r of
                  None \<Rightarrow> fmt f
                | Some t \<Rightarrow> fmt f @ '' - '' @ fmt t)))"

section \<open>Notions the properties are stated with\<close>

text \<open>The identifiers of a table's columns.\<close>

definition column_ids :: "'r Table \<Rightarrow> string set" where
  "column_ids table' = column_id ` set (getAllColumns table')"

section \<open>Properties\<close>

subsection \<open>Decimal strings\<close>

lemma is_digit_digit_char: "is_digit (digit_char d)"
proof -
  have "d mod 10 < length ''0123456789''" by simp
  then have "''0123456789'' ! (d mod 10) \<in> set ''0123456789''" by (rule nth_mem)
  then show ?thesis by (simp only: is_digit_def digit_char_def)
qed

lemma nat_toString_1: "n < 10 \<Longrightarrow> nat_toString n = [digit_char n]"
  by (simp add: nat_toString.simps)

lemma nat_toString_2:
  assumes "10 \<le> n" and "n < 100"
  shows "nat_toString n = [digit_char (n div 10), digit_char (n mod 10)]"
proof -
  from assms have "n div 10 < 10" by simp
  with assms show ?thesis
    by (simp add: nat_toString.simps [of n] nat_toString_1)
qed

lemma nat_toString_3:
  assumes "100 \<le> n" and "n < 1000"
  shows "nat_toString n
           = [digit_char (n div 10 div 10), digit_char (n div 10 mod 10), digit_char (n mod 10)]"
proof -
  from assms have "10 \<le> n div 10" and "n div 10 < 100" by simp_all
  with assms show ?thesis
    by (simp add: nat_toString.simps [of n] nat_toString_2)
qed

lemma nat_toString_4:
  assumes "1000 \<le> n" and "n < 10000"
  shows "nat_toString n
           = [digit_char (n div 10 div 10 div 10), digit_char (n div 10 div 10 mod 10),
              digit_char (n div 10 mod 10), digit_char (n mod 10)]"
proof -
  from assms have "100 \<le> n div 10" and "n div 10 < 1000" by simp_all
  with assms show ?thesis
    by (simp add: nat_toString.simps [of n] nat_toString_3)
qed

lemma four_digit_year:
  assumes "1000 \<le> y" and "y \<le> 9999"
  shows "\<exists>a b c d. Number_toString y = [a, b, c, d]
           \<and> is_digit a \<and> is_digit b \<and> is_digit c \<and> is_digit d"
proof -
  from assms have "1000 \<le> nat y" and "nat y < 10000" by simp_all
  from nat_toString_4 [OF this] assms show ?thesis
    by (simp add: Number_toString_def is_digit_digit_char)
qed

lemma two_digit_pad:
  assumes "0 \<le> i" and "i \<le> 99"
  shows "\<exists>a b. padStart (Number_toString i) 2 ''0'' = [a, b] \<and> is_digit a \<and> is_digit b"
proof (cases "i < 10")
  case True
  with assms have "nat_toString (nat i) = [digit_char (nat i)]"
    by (simp add: nat_toString_1)
  moreover have "is_digit CHR ''0''" by (simp add: is_digit_def)
  ultimately show ?thesis
    using assms by (simp add: Number_toString_def padStart_def is_digit_digit_char)
next
  case False
  with assms have "10 \<le> nat i" and "nat i < 100" by simp_all
  from nat_toString_2 [OF this] assms show ?thesis
    by (simp add: Number_toString_def padStart_def is_digit_digit_char)
qed

lemma not_suffix_Z: "is_digit b \<Longrightarrow> \<not> suffix ''Z'' (xs @ [a, b])"
proof
  assume d: "is_digit b" and "suffix ''Z'' (xs @ [a, b])"
  then obtain zs where "xs @ [a, b] = zs @ ''Z''" by (auto simp: suffix_def)
  then have "last (xs @ [a, b]) = last (zs @ ''Z'')" by simp
  then have "b = CHR ''Z''" by simp
  with d show False by (simp add: is_digit_def)
qed

lemma formatDate_shape:
  assumes "valid_Date d"
  shows "\<exists>mo1 mo2 da1 da2 h1 h2 mi1 mi2 s1 s2.
           formatDateToISOWithoutZ d
             = Number_toString (getUTCFullYear d)
               @ [CHR ''-'', mo1, mo2, CHR ''-'', da1, da2, CHR ''T'', h1, h2, CHR '':'', mi1, mi2,
                  CHR '':'', s1, s2]
           \<and> is_digit mo1 \<and> is_digit mo2 \<and> is_digit da1 \<and> is_digit da2 \<and> is_digit h1
           \<and> is_digit h2 \<and> is_digit mi1 \<and> is_digit mi2 \<and> is_digit s1 \<and> is_digit s2"
proof -
  from assms obtain mo1 mo2 where mo:
    "padStart (Number_toString (getUTCMonth d + 1)) 2 ''0'' = [mo1, mo2]" "is_digit mo1" "is_digit mo2"
    using two_digit_pad [of "getUTCMonth d + 1"] by (auto simp: valid_Date_def)
  from assms obtain da1 da2 where da:
    "padStart (Number_toString (getUTCDate d)) 2 ''0'' = [da1, da2]" "is_digit da1" "is_digit da2"
    using two_digit_pad [of "getUTCDate d"] by (auto simp: valid_Date_def)
  from assms obtain h1 h2 where h:
    "padStart (Number_toString (getUTCHours d)) 2 ''0'' = [h1, h2]" "is_digit h1" "is_digit h2"
    using two_digit_pad [of "getUTCHours d"] by (auto simp: valid_Date_def)
  from assms obtain mi1 mi2 where mi:
    "padStart (Number_toString (getUTCMinutes d)) 2 ''0'' = [mi1, mi2]" "is_digit mi1" "is_digit mi2"
    using two_digit_pad [of "getUTCMinutes d"] by (auto simp: valid_Date_def)
  from assms obtain s1 s2 where s:
    "padStart (Number_toString (getUTCSeconds d)) 2 ''0'' = [s1, s2]" "is_digit s1" "is_digit s2"
    using two_digit_pad [of "getUTCSeconds d"] by (auto simp: valid_Date_def)
  have "formatDateToISOWithoutZ d
             = Number_toString (getUTCFullYear d)
               @ [CHR ''-'', mo1, mo2, CHR ''-'', da1, da2, CHR ''T'', h1, h2, CHR '':'', mi1, mi2,
                  CHR '':'', s1, s2]"
    by (simp add: formatDateToISOWithoutZ_def mo(1) da(1) h(1) mi(1) s(1))
  with mo da h mi s show ?thesis by blast
qed

lemma formatDate_no_Z:
  assumes "valid_Date d"
  shows "\<not> suffix ''Z'' (formatDateToISOWithoutZ d)"
proof -
  from formatDate_shape [OF assms] obtain mo1 mo2 da1 da2 h1 h2 mi1 mi2 s1 s2 where
    e: "formatDateToISOWithoutZ d
             = Number_toString (getUTCFullYear d)
               @ [CHR ''-'', mo1, mo2, CHR ''-'', da1, da2, CHR ''T'', h1, h2, CHR '':'', mi1, mi2,
                  CHR '':'', s1, s2]" and s2: "is_digit s2"
    by blast
  have e2: "formatDateToISOWithoutZ d
          = (Number_toString (getUTCFullYear d)
             @ [CHR ''-'', mo1, mo2, CHR ''-'', da1, da2, CHR ''T'', h1, h2, CHR '':'', mi1, mi2,
                  CHR '':'']) @ [s1, s2]"
    by (simp add: e)
  show ?thesis
    unfolding e2 by (rule not_suffix_Z [OF s2])
qed

lemma formatDate_mask:
  assumes "valid_Date d" and "1000 \<le> getUTCFullYear d" and "getUTCFullYear d \<le> 9999"
  shows "matches_mask iso_naive_mask (formatDateToISOWithoutZ d)"
proof -
  from formatDate_shape [OF assms(1)] obtain mo1 mo2 da1 da2 h1 h2 mi1 mi2 s1 s2 where
    e: "formatDateToISOWithoutZ d
             = Number_toString (getUTCFullYear d)
               @ [CHR ''-'', mo1, mo2, CHR ''-'', da1, da2, CHR ''T'', h1, h2, CHR '':'', mi1, mi2,
                  CHR '':'', s1, s2]"
    and ds: "is_digit mo1" "is_digit mo2" "is_digit da1" "is_digit da2" "is_digit h1"
      "is_digit h2" "is_digit mi1" "is_digit mi2" "is_digit s1" "is_digit s2"
    by blast
  from four_digit_year [OF assms(2,3)] obtain a b c y4 where
    y: "Number_toString (getUTCFullYear d) = [a, b, c, y4]"
    and yd: "is_digit a" "is_digit b" "is_digit c" "is_digit y4"
    by blast
  show ?thesis
    by (simp add: e y iso_naive_mask_def ds yd)
qed

subsection \<open>parseInt after toString\<close>

lemma digit_val_digit_char: "digit_val (digit_char d) = d mod 10"
proof -
  have "d mod 10 = 0 \<or> d mod 10 = 1 \<or> d mod 10 = 2 \<or> d mod 10 = 3 \<or> d mod 10 = 4
        \<or> d mod 10 = 5 \<or> d mod 10 = 6 \<or> d mod 10 = 7 \<or> d mod 10 = 8 \<or> d mod 10 = 9"
    by arith
  then show ?thesis
    by (auto simp: digit_val_def digit_char_def)
qed

lemma digits_value_snoc: "digits_value (ds @ [c]) = 10 * digits_value ds + int (digit_val c)"
  by (simp add: digits_value_def)

lemma digits_value_nat_toString: "digits_value (nat_toString n) = int n"
proof (induction n rule: nat_toString.induct)
  case (1 n)
  show ?case
  proof (cases "n < 10")
    case True
    then show ?thesis
      by (simp add: nat_toString_1 digits_value_def digit_val_digit_char)
  next
    case False
    with 1 have "digits_value (nat_toString (n div 10)) = int (n div 10)" by simp
    moreover have "int n = 10 * int (n div 10) + int (n mod 10)"
      by (simp add: zdiv_int zmod_int)
    ultimately show ?thesis
      using False
      by (simp add: nat_toString.simps [of n] digits_value_snoc digit_val_digit_char)
  qed
qed

lemma digits_nat_toString: "\<forall>c \<in> set (nat_toString n). is_digit c"
proof (induction n rule: nat_toString.induct)
  case (1 n)
  show ?case
  proof (cases "n < 10")
    case True
    then show ?thesis by (simp add: nat_toString_1 is_digit_digit_char)
  next
    case False
    with 1 have "\<forall>c \<in> set (nat_toString (n div 10)). is_digit c" by simp
    with False show ?thesis
      by (simp add: nat_toString.simps [of n] is_digit_digit_char)
  qed
qed

lemma nat_toString_not_Nil: "nat_toString n \<noteq> []"
  by (simp add: nat_toString.simps [of n])

lemma white_space_first:
  assumes "w \<in> set StrWhiteSpaceChar"
  shows "\<exists>a t. w = a # t
           \<and> a \<in> set [CHR 0x09, CHR 0x0A, CHR 0x0B, CHR 0x0C, CHR 0x0D, CHR 0x20, CHR 0xC2,
                       CHR 0xE1, CHR 0xE2, CHR 0xE3, CHR 0xEF]"
proof -
  let ?P = "\<lambda>w. case w of [] \<Rightarrow> False
                | a # _ \<Rightarrow> a \<in> set [CHR 0x09, CHR 0x0A, CHR 0x0B, CHR 0x0C, CHR 0x0D, CHR 0x20,
                                       CHR 0xC2, CHR 0xE1, CHR 0xE2, CHR 0xE3, CHR 0xEF]"
  have "list_all ?P StrWhiteSpaceChar"
    by (simp add: StrWhiteSpaceChar_def)
  then have "\<forall>w \<in> set StrWhiteSpaceChar. ?P w"
    by (simp only: list_all_iff)
  from this assms have "?P w" by (rule bspec)
  then show ?thesis by (cases w) simp_all
qed

lemma digit_or_minus_not_white:
  assumes "is_digit c \<or> c = CHR ''-''"
  shows "c \<notin> set [CHR 0x09, CHR 0x0A, CHR 0x0B, CHR 0x0C, CHR 0x0D, CHR 0x20, CHR 0xC2,
                     CHR 0xE1, CHR 0xE2, CHR 0xE3, CHR 0xEF]"
  using assms by (auto simp: is_digit_def)

lemma white_prefix_None:
  assumes "is_digit c \<or> c = CHR ''-''"
  shows "white_prefix (c # cs) = None"
proof -
  have "\<not> prefix w (c # cs)" if "w \<in> set StrWhiteSpaceChar" for w
  proof
    assume p: "prefix w (c # cs)"
    from white_space_first [OF that] obtain a t where
      w: "w = a # t" and a: "a \<in> set [CHR 0x09, CHR 0x0A, CHR 0x0B, CHR 0x0C, CHR 0x0D,
                                        CHR 0x20, CHR 0xC2, CHR 0xE1, CHR 0xE2, CHR 0xE3, CHR 0xEF]"
      by blast
    from p w have "a = c" by simp
    with a digit_or_minus_not_white [OF assms] show False by blast
  qed
  then show ?thesis
    by (auto simp: white_prefix_def find_None_iff)
qed

lemma trim_white_digits:
  assumes "is_digit c \<or> c = CHR ''-''"
  shows "trim_white (c # cs) = c # cs"
  by (simp add: trim_white.simps [of "c # cs"] white_prefix_None [OF assms])

lemma digit_not_sign: "is_digit c \<Longrightarrow> c \<noteq> CHR ''-'' \<and> c \<noteq> CHR ''+''"
  by (auto simp: is_digit_def)

lemma parseInt_digits:
  assumes "ds \<noteq> []" and "\<forall>c \<in> set ds. is_digit c" and "digits_value ds < 2 ^ 53"
  shows "parseInt ds = Finite (digits_value ds)"
    and "parseInt (CHR ''-'' # ds) = Finite (- digits_value ds)"
proof -
  from assms obtain c cs where ds: "ds = c # cs" and c: "is_digit c"
    by (cases ds) auto
  from assms(2) have tw: "takeWhile is_digit ds = ds"
    by (simp add: takeWhile_eq_all_conv)
  from c have ns: "c \<noteq> CHR ''-''" "c \<noteq> CHR ''+''"
    using digit_not_sign by blast+
  from c have t1: "trim_white ds = ds"
    by (simp add: ds trim_white_digits)
  have t2: "trim_white (CHR ''-'' # ds) = CHR ''-'' # ds"
    by (simp add: trim_white_digits)
  from assms(3) have d: "to_double (digits_value ds) = Some (digits_value ds)"
    by (simp add: to_double_def)
  from ns tw [unfolded ds] d [unfolded ds]
  show "parseInt ds = Finite (digits_value ds)"
    by (simp add: parseInt_def t1 [unfolded ds] ds Let_def del: takeWhile_eq_all_conv)
  from assms(1) show "parseInt (CHR ''-'' # ds) = Finite (- digits_value ds)"
    by (simp add: parseInt_def t2 Let_def tw d del: takeWhile_eq_all_conv)
qed

lemma parseInt_Number_toString:
  assumes "- (2 ^ 53) < i" and "i < 2 ^ 53"
  shows "parseInt (Number_toString i) = Finite i"
proof (cases "i < 0")
  case True
  with assms have "digits_value (nat_toString (nat (- i))) < 2 ^ 53"
    by (simp add: digits_value_nat_toString)
  from parseInt_digits(2) [OF nat_toString_not_Nil digits_nat_toString this] True
  show ?thesis
    by (simp add: Number_toString_def digits_value_nat_toString)
next
  case False
  with assms have "digits_value (nat_toString (nat i)) < 2 ^ 53"
    by (simp add: digits_value_nat_toString)
  from parseInt_digits(1) [OF nat_toString_not_Nil digits_nat_toString this] False
  show ?thesis
    by (simp add: Number_toString_def digits_value_nat_toString)
qed

text \<open>
  Above \<open>2 ^ 53\<close> the parse is rounded, a no-break space before the digits is skipped, and
  what follows the digits is ignored.
\<close>

lemma parseInt_examples:
  "parseInt ''9007199254740993'' = Finite 9007199254740992"
  "parseInt ''9007199254740995'' = Finite 9007199254740996"
  "parseInt [CHR 0xC2, CHR 0xA0, CHR ''4'', CHR ''2''] = Finite 42"
  "parseInt '' -12abc'' = Finite (- 12)"
  "parseInt ''abc'' = NaN"
  "parseInt ''+7'' = Finite 7"
  by code_simp+

subsection \<open>The promise chains\<close>

lemma fetchRoleSkillMatch_ok:
  assumes "ok res" and "json res = Inr apiData"
  shows "fetchRoleSkillMatch (Inr res) st = fetchRoleSkillMatch_then2 apiData st"
  using assms
  by (simp add: fetchRoleSkillMatch_def fetchRoleSkillMatch_then1_def
      fetchRoleSkillMatch_then2_def then_p_def catch_p_def Let_def)

text \<open>
  C1. When the skill-match fetch resolves with an ok response whose body decodes to
  \<open>apiData\<close>, the view model's skill info is set and rendered: \<open>skillObtained\<close> is the
  names of \<open>active\<close> followed by those of \<open>in_progress\<close>, \<open>skillMissing\<close> the names of
  \<open>unverified\<close>. If the names of the three lists are pairwise disjoint, no name is in both
  \<open>skillObtained\<close> and \<open>skillMissing\<close>.
\<close>

theorem skill_match_projection:
  assumes "ok res" and "json res = Inr apiData"
  shows "\<exists>st' si. fetchRoleSkillMatch (Inr res) st = Inr st'
           \<and> skillInfo st' = Some si
           \<and> skillMatch (RoleListing_render st') = SkillMatch si
           \<and> skillObtained si
               = map skill_name (active (match apiData) @ in_progress (match apiData))
           \<and> skillMissing si = map skill_name (unverified (match apiData))
           \<and> (set (map skill_name (active (match apiData)))
                  \<inter> set (map skill_name (in_progress (match apiData))) = {}
                \<and> set (map skill_name (active (match apiData)))
                  \<inter> set (map skill_name (unverified (match apiData))) = {}
                \<and> set (map skill_name (in_progress (match apiData)))
                  \<inter> set (map skill_name (unverified (match apiData))) = {}
                \<longrightarrow> set (skillObtained si) \<inter> set (skillMissing si) = {})"
proof -
  let ?si = "\<lparr>skillObtained = map skill_name (active (match apiData) @ in_progress (match apiData)),
              skillMissing = map skill_name (unverified (match apiData))\<rparr>"
  let ?st' = "st\<lparr>skillInfo := Some ?si\<rparr>"
  have run: "fetchRoleSkillMatch (Inr res) st = Inr ?st'"
    by (simp add: fetchRoleSkillMatch_ok [OF assms] fetchRoleSkillMatch_then2_def)
  have shown: "skillMatch (RoleListing_render ?st') = SkillMatch ?si"
    by (simp add: RoleListing_render_def)
  have disj: "set (map skill_name (active (match apiData)))
                \<inter> set (map skill_name (unverified (match apiData))) = {}
              \<and> set (map skill_name (in_progress (match apiData)))
                \<inter> set (map skill_name (unverified (match apiData))) = {}
              \<longrightarrow> set (skillObtained ?si) \<inter> set (skillMissing ?si) = {}"
    by auto
  from run shown disj show ?thesis by simp
qed

text \<open>
  The scenario of the specification: \<open>active\<close> holds SQL, \<open>in_progress\<close> is empty and
  \<open>unverified\<close> holds Go.
\<close>

theorem skill_match_projection_witness:
  "\<exists>st'. fetchRoleSkillMatch
           (Inr \<lparr>status = 200, statusText = ''OK'',
                 json = Inr \<lparr>match = \<lparr>active = [\<lparr>skill_id = 1, skill_name = ''SQL''\<rparr>],
                                       in_progress = [],
                                       unverified = [\<lparr>skill_id = 2, skill_name = ''Go''\<rparr>]\<rparr>\<rparr>\<rparr>)
           \<lparr>roleInfo = \<lparr>roleid = 3, roleName_pd = ''Analyst'', roleDescription_pd = '''',
                        skillsRequired = [''SQL'', ''Go''], roleDepartment = ''IT'',
                        roleLocation = ''SG'', roleListingDesc = ''''\<rparr>,
            skillInfo = None, console = []\<rparr> = Inr st'
         \<and> skillInfo st' = Some \<lparr>skillObtained = [''SQL''], skillMissing = [''Go'']\<rparr>
         \<and> skillMatch (RoleListing_render st')
             = SkillMatch \<lparr>skillObtained = [''SQL''], skillMissing = [''Go'']\<rparr>
         \<and> set (skillObtained \<lparr>skillObtained = [''SQL''], skillMissing = [''Go'']\<rparr>)
             \<inter> set (skillMissing \<lparr>skillObtained = [''SQL''], skillMissing = [''Go'']\<rparr>) = {}"
proof -
  let ?api = "\<lparr>match = \<lparr>active = [\<lparr>skill_id = 1, skill_name = ''SQL''\<rparr>],
                          in_progress = [],
                          unverified = [\<lparr>skill_id = 2, skill_name = ''Go''\<rparr>]\<rparr>\<rparr>"
  let ?res = "\<lparr>status = 200, statusText = ''OK'', json = Inr ?api\<rparr>"
  let ?st = "\<lparr>roleInfo = \<lparr>roleid = 3, roleName_pd = ''Analyst'', roleDescription_pd = '''',
                        skillsRequired = [''SQL'', ''Go''], roleDepartment = ''IT'',
                        roleLocation = ''SG'', roleListingDesc = ''''\<rparr>,
            skillInfo = None, console = []\<rparr>"
  have a: "ok ?res" by (simp add: ok_def)
  have b: "json ?res = Inr ?api" by simp
  obtain st' si where r: "fetchRoleSkillMatch (Inr ?res) ?st = Inr st'"
    "skillInfo st' = Some si" "skillMatch (RoleListing_render st') = SkillMatch si"
    "skillObtained si = map skill_name (active (match ?api) @ in_progress (match ?api))"
    "skillMissing si = map skill_name (unverified (match ?api))"
    using skill_match_projection [OF a b, of ?st] by (elim exE conjE)
  from r(4,5) have "si = \<lparr>skillObtained = [''SQL''], skillMissing = [''Go'']\<rparr>"
    by simp
  with r(1,2,3) show ?thesis by simp
qed

subsection \<open>Request headers\<close>

text \<open>
  C3, as stated, fails: the skill-match request of a signed-in user (staff 7, role
  listing 3) has no \<open>role\<close> header.
\<close>

theorem skill_match_request_has_no_role_header:
  "map_of (headers (fetchRoleSkillMatch_request 7
             \<lparr>roleInfo = \<lparr>roleid = 3, roleName_pd = ''Analyst'', roleDescription_pd = '''',
                          skillsRequired = [''SQL'', ''Go''], roleDepartment = ''IT'',
                          roleLocation = ''SG'', roleListingDesc = ''''\<rparr>,
              skillInfo = None, console = []\<rparr>)) ''role'' = None"
  by (simp add: fetchRoleSkillMatch_request_def)

text \<open>
  C3, amended. The create-role POST carries the header \<open>role\<close> with \<open>String(userRole)\<close>, the
  \<open>role_listings_info\<close> fetch carries it with \<open>String(userRole || "")\<close>, and the
  role-skills-match fetch is issued with no headers at all.
\<close>

theorem role_header_of_requests:
  "map_of (headers (onSubmit_request staffId userRole d)) ''role'' = Some (String_opt userRole)
   \<and> map_of (headers (fetchRoles_request userToken userRole)) ''role''
       = Some (or_empty userRole)
   \<and> headers (fetchRoleSkillMatch_request staffId st) = []"
  by (simp add: onSubmit_request_def fetchRoles_request_def fetchRoleSkillMatch_request_def
      String_opt_def)

subsection \<open>The handlers on any decoded body\<close>

lemma fetchRoleSkillMatch_js_cases:
  "fetchRoleSkillMatch_js (Inl err) st = Inr (RoleListing_logged err st)"
  "\<not> ok res \<Longrightarrow>
     fetchRoleSkillMatch_js (Inr res) st = Inr (RoleListing_logged (Error ''Network error'') st)"
  "ok res \<Longrightarrow> json res = Inl err \<Longrightarrow>
     fetchRoleSkillMatch_js (Inr res) st = Inr (RoleListing_logged err st)"
  "ok res \<Longrightarrow> json res = Inr apiData \<Longrightarrow> fetchRoleSkillMatch_js_then2 apiData st = Inl err \<Longrightarrow>
     fetchRoleSkillMatch_js (Inr res) st = Inr (RoleListing_logged err st)"
  "ok res \<Longrightarrow> json res = Inr apiData \<Longrightarrow> fetchRoleSkillMatch_js_then2 apiData st = Inr st' \<Longrightarrow>
     fetchRoleSkillMatch_js (Inr res) st = Inr st'"
  by (simp_all add: fetchRoleSkillMatch_js_def fetchRoleSkillMatch_then1_def then_p_def
      catch_p_def)

lemma fetchRoles_js_cases:
  "fetchRoles_js rid (Inl err) st = Inr (RolePage_logged err st)"
  "\<not> ok res \<Longrightarrow>
     fetchRoles_js rid (Inr res) st = Inr (RolePage_logged (Error ''Network error'') st)"
  "ok res \<Longrightarrow> json res = Inl err \<Longrightarrow>
     fetchRoles_js rid (Inr res) st = Inr (RolePage_logged err st)"
  "ok res \<Longrightarrow> json res = Inr apiData \<Longrightarrow> fetchRoles_js_then2 rid apiData st = Inl err \<Longrightarrow>
     fetchRoles_js rid (Inr res) st = Inr (RolePage_logged err st)"
  "ok res \<Longrightarrow> json res = Inr apiData \<Longrightarrow> fetchRoles_js_then2 rid apiData st = Inr st' \<Longrightarrow>
     fetchRoles_js rid (Inr res) st = Inr st'"
  by (simp_all add: fetchRoles_js_def fetchRoles_then1_def then_p_def catch_p_def)

lemma fetchRoleSkillMatch_js_fulfilled: "\<exists>st'. fetchRoleSkillMatch_js settled st = Inr st'"
proof (cases settled)
  case (Inl err)
  then show ?thesis by (simp add: fetchRoleSkillMatch_js_cases(1))
next
  case (Inr res)
  show ?thesis
  proof (cases "ok res")
    case False
    with Inr show ?thesis by (simp add: fetchRoleSkillMatch_js_cases(2))
  next
    case True
    show ?thesis
    proof (cases "json res")
      case (Inl err)
      with True \<open>settled = Inr res\<close> show ?thesis by (simp add: fetchRoleSkillMatch_js_cases(3))
    next
      case body: (Inr apiData)
      show ?thesis
      proof (cases "fetchRoleSkillMatch_js_then2 apiData st")
        case (Inl err)
        with True body \<open>settled = Inr res\<close> show ?thesis
          by (simp add: fetchRoleSkillMatch_js_cases(4))
      next
        case (Inr st')
        with True body \<open>settled = Inr res\<close> show ?thesis
          by (simp add: fetchRoleSkillMatch_js_cases(5))
      qed
    qed
  qed
qed

lemma fetchRoles_js_fulfilled: "\<exists>st'. fetchRoles_js rid settled st = Inr st'"
proof (cases settled)
  case (Inl err)
  then show ?thesis by (simp add: fetchRoles_js_cases(1))
next
  case (Inr res)
  show ?thesis
  proof (cases "ok res")
    case False
    with Inr show ?thesis by (simp add: fetchRoles_js_cases(2))
  next
    case True
    show ?thesis
    proof (cases "json res")
      case (Inl err)
      with True \<open>settled = Inr res\<close> show ?thesis by (simp add: fetchRoles_js_cases(3))
    next
      case body: (Inr apiData)
      show ?thesis
      proof (cases "fetchRoles_js_then2 rid apiData st")
        case (Inl err)
        with True body \<open>settled = Inr res\<close> show ?thesis
          by (simp add: fetchRoles_js_cases(4))
      next
        case (Inr st')
        with True body \<open>settled = Inr res\<close> show ?thesis
          by (simp add: fetchRoles_js_cases(5))
      qed
    qed
  qed
qed

text \<open>Bodies on which the second callback throws: a body with no \<open>match\<close>, a role with no \<open>skills\<close>.\<close>

lemma no_match_throws:
  assumes "get_property apiData ''match'' = Inr JSUndefined"
  shows "fetchRoleSkillMatch_js_then2 apiData st
           = Inl (TypeError ''Cannot read properties of undefined'')"
  using assms by (simp add: fetchRoleSkillMatch_js_then2_def then_p_def get_property_def)

lemma no_skills_throws:
  assumes "get_index apiData rid = Inr (JSObject props)" and "map_of props ''skills'' = None"
  shows "fetchRoles_js_then2 rid apiData st
           = Inl (TypeError ''Cannot read properties of undefined'')"
  using assms
  by (simp add: fetchRoles_js_then2_def then_p_def get_property_def map_skill_name_def)

lemma no_role_listing_throws:
  assumes "get_index apiData rid = Inr JSUndefined"
  shows "fetchRoles_js_then2 rid apiData st
           = Inl (TypeError ''Cannot read properties of undefined'')"
  using assms by (simp add: fetchRoles_js_then2_def then_p_def get_property_def)

text \<open>On a body of the declared type the callbacks do what the typed ones do.\<close>

lemma get_property_object:
  "get_property (JSObject props) name
     = Inr (case map_of props name of None \<Rightarrow> JSUndefined | Some x \<Rightarrow> x)"
  by (simp add: get_property_def)

lemma skill_name_of_skill_js:
  "get_property (skill_js s) ''skill_name'' = Inr (JSString (skill_name s))"
  by (simp add: skill_js_def get_property_object)

lemma map_p_skill_names:
  "map_p (\<lambda>skill. get_property skill ''skill_name'') (map skill_js xs)
     = Inr (map JSString (map skill_name xs))"
  by (induction xs) (simp_all add: skill_name_of_skill_js)

lemma fetchRoleSkillMatch_js_then2_typed:
  "fetchRoleSkillMatch_js_then2 (SkillMatchAPIResponse_js apiData) (RoleListing_state_to_js st)
     = map_sum id RoleListing_state_to_js (fetchRoleSkillMatch_then2 apiData st)"
proof -
  have "map_p (\<lambda>skill. get_property skill ''skill_name'')
          (map skill_js (active (match apiData)) @ map skill_js (in_progress (match apiData)))
        = Inr (map JSString (map skill_name (active (match apiData) @ in_progress (match apiData))))"
    using map_p_skill_names [of "active (match apiData) @ in_progress (match apiData)"]
    by simp
  then show ?thesis
    by (simp add: fetchRoleSkillMatch_js_then2_def fetchRoleSkillMatch_then2_def
        SkillMatchAPIResponse_js_def then_p_def get_property_object call_concat_def
        map_obtained_def map_skill_name_def map_p_skill_names
        RoleListing_state_to_js_def SkillInfo_to_js_def Let_def)
qed

lemma fetchRoles_js_then2_typed:
  assumes "get_index b rid
             = Inr (case apiData rid of None \<Rightarrow> JSUndefined | Some r \<Rightarrow> SpecificRoleInfo_js r)"
  shows "case fetchRoles_then2 rid apiData st of
           Inl _ \<Rightarrow> (\<exists>err. fetchRoles_js_then2 rid b (RolePage_state_to_js st) = Inl err)
         | Inr st' \<Rightarrow> fetchRoles_js_then2 rid b (RolePage_state_to_js st)
                       = Inr (RolePage_state_to_js st')"
proof (cases "apiData rid")
  case None
  with assms show ?thesis
    by (simp add: fetchRoles_then2_def no_role_listing_throws)
next
  case (Some r)
  with assms have "get_index b rid = Inr (SpecificRoleInfo_js r)" by simp
  with Some show ?thesis
    by (simp add: fetchRoles_then2_def fetchRoles_js_then2_def SpecificRoleInfo_js_def
        then_p_def get_property_object map_skill_name_def map_p_skill_names
        RolePage_state_to_js_def PageData_to_js_def Let_def)
qed

lemma RoleListing_logged_typed:
  "RoleListing_logged err (RoleListing_state_to_js st)
     = RoleListing_state_to_js
         (st\<lparr>console := console st @ [LogError ''Error fetching role details:'' err]\<rparr>)"
  by (simp add: RoleListing_logged_def RoleListing_state_to_js_def)

lemma fetchRoleSkillMatch_js_typed:
  "fetchRoleSkillMatch_js (map_sum id (Response_js SkillMatchAPIResponse_js) settled)
     (RoleListing_state_to_js st)
     = map_sum id RoleListing_state_to_js (fetchRoleSkillMatch settled st)"
proof (cases settled)
  case (Inl err)
  then show ?thesis
    by (simp add: fetchRoleSkillMatch_js_cases(1) RoleListing_logged_typed
        fetchRoleSkillMatch_def then_p_def catch_p_def fetchRoleSkillMatch_catch_def)
next
  case (Inr res)
  have o: "ok (Response_js SkillMatchAPIResponse_js res) = ok res"
    by (simp add: ok_def Response_js_def)
  have j: "json (Response_js SkillMatchAPIResponse_js res)
             = map_sum id SkillMatchAPIResponse_js (json res)"
    by (simp add: Response_js_def)
  show ?thesis
  proof (cases "ok res")
    case False
    with Inr o show ?thesis
      by (simp add: fetchRoleSkillMatch_js_cases(2) RoleListing_logged_typed
          fetchRoleSkillMatch_def fetchRoleSkillMatch_then1_def then_p_def catch_p_def
          fetchRoleSkillMatch_catch_def)
  next
    case True
    show ?thesis
    proof (cases "json res")
      case (Inl err)
      with True o j have "fetchRoleSkillMatch_js (Inr (Response_js SkillMatchAPIResponse_js res))
                            (RoleListing_state_to_js st)
                          = Inr (RoleListing_logged err (RoleListing_state_to_js st))"
        by (simp add: fetchRoleSkillMatch_js_cases(3))
      with True Inl \<open>settled = Inr res\<close> show ?thesis
        by (simp add: RoleListing_logged_typed fetchRoleSkillMatch_def
            fetchRoleSkillMatch_then1_def then_p_def catch_p_def fetchRoleSkillMatch_catch_def)
    next
      case body: (Inr apiData)
      obtain st' where t: "fetchRoleSkillMatch_then2 apiData st = Inr st'"
        by (simp add: fetchRoleSkillMatch_then2_def Let_def)
      then have "fetchRoleSkillMatch_js_then2 (SkillMatchAPIResponse_js apiData)
                   (RoleListing_state_to_js st) = Inr (RoleListing_state_to_js st')"
        by (simp add: fetchRoleSkillMatch_js_then2_typed)
      with True o j body
      have "fetchRoleSkillMatch_js (Inr (Response_js SkillMatchAPIResponse_js res))
              (RoleListing_state_to_js st) = Inr (RoleListing_state_to_js st')"
        by (simp add: fetchRoleSkillMatch_js_cases(5))
      with True body t \<open>settled = Inr res\<close> show ?thesis
        by (simp add: fetchRoleSkillMatch_def fetchRoleSkillMatch_then1_def then_p_def
            catch_p_def)
    qed
  qed
qed

subsection \<open>Failures\<close>

text \<open>
  C4. When the create-role POST resolves with a status outside 200..299, the chain ends
  fulfilled in a state with one more toast, destructive, titled "Error creating role!"
  and described by the response's status text; the form's values (and every other slice)
  are as before.
\<close>

theorem create_role_failure_toast:
  assumes "status res < 200 \<or> 299 < status res"
  shows "\<exists>st'. onSubmit_settled formattedDate (Inr res) st = Inr st'
           \<and> toasts st' = toasts st @
                [\<lparr>variant = Destructive, title = ''Error creating role!'',
                  description = statusText res, action = ''Dismiss''\<rparr>]
           \<and> form st' = form st \<and> skillIdList st' = skillIdList st
           \<and> managerDetails st' = managerDetails st \<and> fetched st' = fetched st"
proof -
  from assms have "\<not> ok res" by (auto simp: ok_def)
  then have "then_p (Inr res) onSubmit_then1 = Inl (Error (statusText res))"
    by (simp add: then_p_def onSubmit_then1_def)
  then show ?thesis
    by (simp add: onSubmit_settled_def then_p_def catch_p_def onSubmit_catch_def)
qed

text \<open>The scenario of the specification: the server answers 500.\<close>

theorem create_role_failure_toast_witness:
  "\<exists>st'. onSubmit_settled ''1 January 2024''
           (Inr \<lparr>status = 500, statusText = ''Internal Server Error'',
                 json = Inl (SyntaxError ''Unexpected token'') :: js_error + unit\<rparr>)
           \<lparr>form = [(''roleName'', FString ''3''), (''listingId'', FNumber 11)],
            skillIdList = [], managerDetails = [], toasts = [], console_form = [],
            fetched = []\<rparr> = Inr st'
         \<and> toasts st' = [\<lparr>variant = Destructive, title = ''Error creating role!'',
                           description = ''Internal Server Error'', action = ''Dismiss''\<rparr>]
         \<and> form st' = [(''roleName'', FString ''3''), (''listingId'', FNumber 11)]"
  using create_role_failure_toast
    [of "\<lparr>status = 500, statusText = ''Internal Server Error'',
           json = Inl (SyntaxError ''Unexpected token'') :: js_error + unit\<rparr>"
        "''1 January 2024''"
        "\<lparr>form = [(''roleName'', FString ''3''), (''listingId'', FNumber 11)],
          skillIdList = [], managerDetails = [], toasts = [], console_form = [],
          fetched = []\<rparr>"]
  by auto

text \<open>
  C5. Neither read-side chain ever ends rejected: nothing escapes the \<open>.catch\<close>. When the
  fetch is rejected, when the status is outside 200..299 (the code then throws its
  "Network error"), when the body does not decode, or when the second callback throws on
  the decoded body, whatever it is, the chain ends in the state it started from with one
  more console entry, which holds that very error. In that state the slices are as
  before and the component renders what it rendered: a skill info or page data that was
  undefined stays undefined, and the placeholder stays on screen.
\<close>

theorem read_fetch_failures_absorbed:
  "(\<exists>st'. fetchRoleSkillMatch_js settled_s st_s = Inr st')
   \<and> (settled_s = Inl err \<longrightarrow>
        fetchRoleSkillMatch_js settled_s st_s = Inr (RoleListing_logged err st_s))
   \<and> (settled_s = Inr res_s \<and> (status res_s < 200 \<or> 299 < status res_s) \<longrightarrow>
        fetchRoleSkillMatch_js settled_s st_s
          = Inr (RoleListing_logged (Error ''Network error'') st_s))
   \<and> (settled_s = Inr res_s \<and> ok res_s \<and> json res_s = Inl err \<longrightarrow>
        fetchRoleSkillMatch_js settled_s st_s = Inr (RoleListing_logged err st_s))
   \<and> (settled_s = Inr res_s \<and> ok res_s \<and> json res_s = Inr apiData_s
        \<and> fetchRoleSkillMatch_js_then2 apiData_s st_s = Inl err \<longrightarrow>
        fetchRoleSkillMatch_js settled_s st_s = Inr (RoleListing_logged err st_s))
   \<and> console_js (RoleListing_logged err st_s)
       = console_js st_s @ [LogError ''Error fetching role details:'' err]
   \<and> skillInfo_js (RoleListing_logged err st_s) = skillInfo_js st_s
   \<and> roleInfo_js (RoleListing_logged err st_s) = roleInfo_js st_s
   \<and> RoleListing_render_js (RoleListing_logged err st_s) = RoleListing_render_js st_s
   \<and> (skillInfo_js st_s = None \<longrightarrow>
        snd (RoleListing_render_js (RoleListing_logged err st_s)) = Placeholder)
   \<and> (\<exists>st'. fetchRoles_js rid settled_r st_r = Inr st')
   \<and> (settled_r = Inl err \<longrightarrow>
        fetchRoles_js rid settled_r st_r = Inr (RolePage_logged err st_r))
   \<and> (settled_r = Inr res_r \<and> (status res_r < 200 \<or> 299 < status res_r) \<longrightarrow>
        fetchRoles_js rid settled_r st_r = Inr (RolePage_logged (Error ''Network error'') st_r))
   \<and> (settled_r = Inr res_r \<and> ok res_r \<and> json res_r = Inl err \<longrightarrow>
        fetchRoles_js rid settled_r st_r = Inr (RolePage_logged err st_r))
   \<and> (settled_r = Inr res_r \<and> ok res_r \<and> json res_r = Inr apiData_r
        \<and> fetchRoles_js_then2 rid apiData_r st_r = Inl err \<longrightarrow>
        fetchRoles_js rid settled_r st_r = Inr (RolePage_logged err st_r))
   \<and> console_page_js (RolePage_logged err st_r)
       = console_page_js st_r @ [LogError ''Error fetching role details:'' err]
   \<and> data_js (RolePage_logged err st_r) = data_js st_r
   \<and> RolePage_render_js (RolePage_logged err st_r) = RolePage_render_js st_r
   \<and> (data_js st_r = None \<longrightarrow> RolePage_render_js (RolePage_logged err st_r) = Placeholder)"
proof (intro conjI impI)
  show "\<exists>st'. fetchRoleSkillMatch_js settled_s st_s = Inr st'"
    by (rule fetchRoleSkillMatch_js_fulfilled)
  show "\<exists>st'. fetchRoles_js rid settled_r st_r = Inr st'"
    by (rule fetchRoles_js_fulfilled)
  show "console_js (RoleListing_logged err st_s)
       = console_js st_s @ [LogError ''Error fetching role details:'' err]"
    and "skillInfo_js (RoleListing_logged err st_s) = skillInfo_js st_s"
    and "roleInfo_js (RoleListing_logged err st_s) = roleInfo_js st_s"
    and "RoleListing_render_js (RoleListing_logged err st_s) = RoleListing_render_js st_s"
    by (simp_all add: RoleListing_logged_def RoleListing_render_js_def)
  show "console_page_js (RolePage_logged err st_r)
       = console_page_js st_r @ [LogError ''Error fetching role details:'' err]"
    and "data_js (RolePage_logged err st_r) = data_js st_r"
    and "RolePage_render_js (RolePage_logged err st_r) = RolePage_render_js st_r"
    by (simp_all add: RolePage_logged_def RolePage_render_js_def)
next
  assume "settled_s = Inl err"
  then show "fetchRoleSkillMatch_js settled_s st_s = Inr (RoleListing_logged err st_s)"
    by (simp add: fetchRoleSkillMatch_js_cases(1))
next
  assume "settled_s = Inr res_s \<and> (status res_s < 200 \<or> 299 < status res_s)"
  then have "settled_s = Inr res_s" and "\<not> ok res_s" by (auto simp: ok_def)
  then show "fetchRoleSkillMatch_js settled_s st_s
               = Inr (RoleListing_logged (Error ''Network error'') st_s)"
    by (simp add: fetchRoleSkillMatch_js_cases(2))
next
  assume "settled_s = Inr res_s \<and> ok res_s \<and> json res_s = Inl err"
  then show "fetchRoleSkillMatch_js settled_s st_s = Inr (RoleListing_logged err st_s)"
    by (simp add: fetchRoleSkillMatch_js_cases(3))
next
  assume "settled_s = Inr res_s \<and> ok res_s \<and> json res_s = Inr apiData_s
            \<and> fetchRoleSkillMatch_js_then2 apiData_s st_s = Inl err"
  then show "fetchRoleSkillMatch_js settled_s st_s = Inr (RoleListing_logged err st_s)"
    by (simp add: fetchRoleSkillMatch_js_cases(4))
next
  assume "skillInfo_js st_s = None"
  then show "snd (RoleListing_render_js (RoleListing_logged err st_s)) = Placeholder"
    by (simp add: RoleListing_logged_def RoleListing_render_js_def)
next
  assume "settled_r = Inl err"
  then show "fetchRoles_js rid settled_r st_r = Inr (RolePage_logged err st_r)"
    by (simp add: fetchRoles_js_cases(1))
next
  assume "settled_r = Inr res_r \<and> (status res_r < 200 \<or> 299 < status res_r)"
  then have "settled_r = Inr res_r" and "\<not> ok res_r" by (auto simp: ok_def)
  then show "fetchRoles_js rid settled_r st_r = Inr (RolePage_logged (Error ''Network error'') st_r)"
    by (simp add: fetchRoles_js_cases(2))
next
  assume "settled_r = Inr res_r \<and> ok res_r \<and> json res_r = Inl err"
  then show "fetchRoles_js rid settled_r st_r = Inr (RolePage_logged err st_r)"
    by (simp add: fetchRoles_js_cases(3))
next
  assume "settled_r = Inr res_r \<and> ok res_r \<and> json res_r = Inr apiData_r
            \<and> fetchRoles_js_then2 rid apiData_r st_r = Inl err"
  then show "fetchRoles_js rid settled_r st_r = Inr (RolePage_logged err st_r)"
    by (simp add: fetchRoles_js_cases(4))
next
  assume "data_js st_r = None"
  then show "RolePage_render_js (RolePage_logged err st_r) = Placeholder"
    by (simp add: RolePage_logged_def RolePage_render_js_def)
qed

text \<open>
  On a freshly mounted \<open>RoleListing\<close>: a skill-match response 200 with the body \<open>{}\<close>, and one
  answered 503. On a freshly mounted \<open>RolePage\<close> asking for role listing 3: a fetch that is
  rejected, and a response 200 whose entry 3 has no \<open>skills\<close>.
\<close>

theorem read_fetch_failures_absorbed_witness:
  "fetchRoleSkillMatch_js
     (Inr \<lparr>status = 200, statusText = ''OK'', json = Inr (JSObject [])\<rparr>)
     \<lparr>roleInfo_js = \<lparr>roleid_js = 3, roleName_js = JSString ''Analyst'',
                     roleDescription_js = JSString '''', skillsRequired_js = [JSString ''SQL''],
                     roleDepartment_js = JSString ''IT'', roleLocation_js = JSString ''SG'',
                     roleListingDesc_js = JSString ''''\<rparr>,
      skillInfo_js = None, console_js = []\<rparr>
   = Inr \<lparr>roleInfo_js = \<lparr>roleid_js = 3, roleName_js = JSString ''Analyst'',
                     roleDescription_js = JSString '''', skillsRequired_js = [JSString ''SQL''],
                     roleDepartment_js = JSString ''IT'', roleLocation_js = JSString ''SG'',
                     roleListingDesc_js = JSString ''''\<rparr>,
          skillInfo_js = None,
          console_js = [LogError ''Error fetching role details:''
                          (TypeError ''Cannot read properties of undefined'')]\<rparr>
   \<and> fetchRoleSkillMatch_js
     (Inr \<lparr>status = 503, statusText = ''Service Unavailable'',
           json = Inl (SyntaxError ''Unexpected token'')\<rparr>)
     \<lparr>roleInfo_js = \<lparr>roleid_js = 3, roleName_js = JSString ''Analyst'',
                     roleDescription_js = JSString '''', skillsRequired_js = [JSString ''SQL''],
                     roleDepartment_js = JSString ''IT'', roleLocation_js = JSString ''SG'',
                     roleListingDesc_js = JSString ''''\<rparr>,
      skillInfo_js = None, console_js = []\<rparr>
   = Inr \<lparr>roleInfo_js = \<lparr>roleid_js = 3, roleName_js = JSString ''Analyst'',
                     roleDescription_js = JSString '''', skillsRequired_js = [JSString ''SQL''],
                     roleDepartment_js = JSString ''IT'', roleLocation_js = JSString ''SG'',
                     roleListingDesc_js = JSString ''''\<rparr>,
          skillInfo_js = None,
          console_js = [LogError ''Error fetching role details:'' (Error ''Network error'')]\<rparr>
   \<and> snd (RoleListing_render_js
        \<lparr>roleInfo_js = \<lparr>roleid_js = 3, roleName_js = JSString ''Analyst'',
                     roleDescription_js = JSString '''', skillsRequired_js = [JSString ''SQL''],
                     roleDepartment_js = JSString ''IT'', roleLocation_js = JSString ''SG'',
                     roleListingDesc_js = JSString ''''\<rparr>,
          skillInfo_js = None,
          console_js = [LogError ''Error fetching role details:''
                          (TypeError ''Cannot read properties of undefined'')]\<rparr>) = Placeholder
   \<and> fetchRoles_js 3 (Inl (TypeError ''Failed to fetch'')) \<lparr>data_js = None, console_page_js = []\<rparr>
       = Inr \<lparr>data_js = None,
              console_page_js = [LogError ''Error fetching role details:''
                                   (TypeError ''Failed to fetch'')]\<rparr>
   \<and> fetchRoles_js 3
        (Inr \<lparr>status = 200, statusText = ''OK'',
              json = Inr (JSObject [(''3'', JSObject [(''role_name'', JSString ''Analyst'')])])\<rparr>)
        \<lparr>data_js = None, console_page_js = []\<rparr>
       = Inr \<lparr>data_js = None,
              console_page_js = [LogError ''Error fetching role details:''
                                   (TypeError ''Cannot read properties of undefined'')]\<rparr>
   \<and> RolePage_render_js
        \<lparr>data_js = None,
         console_page_js = [LogError ''Error fetching role details:''
                              (TypeError ''Cannot read properties of undefined'')]\<rparr> = Placeholder"
proof -
  let ?st1 = "\<lparr>roleInfo_js = \<lparr>roleid_js = 3, roleName_js = JSString ''Analyst'',
                     roleDescription_js = JSString '''', skillsRequired_js = [JSString ''SQL''],
                     roleDepartment_js = JSString ''IT'', roleLocation_js = JSString ''SG'',
                     roleListingDesc_js = JSString ''''\<rparr>,
      skillInfo_js = None, console_js = []\<rparr>"
  let ?st2 = "\<lparr>data_js = None, console_page_js = []\<rparr>"
  let ?te = "TypeError ''Cannot read properties of undefined''"
  let ?r200 = "\<lparr>status = 200, statusText = ''OK'', json = Inr (JSObject [])\<rparr>"
  let ?r503 = "\<lparr>status = 503, statusText = ''Service Unavailable'',
           json = Inl (SyntaxError ''Unexpected token'') :: js_error + jsval\<rparr>"
  let ?body = "JSObject [(''3'', JSObject [(''role_name'', JSString ''Analyst'')])]"
  let ?rno = "\<lparr>status = 200, statusText = ''OK'', json = Inr ?body\<rparr>"
  have three: "Number_toString 3 = ''3''" by code_simp
  have a: "Inr ?r200 = Inr ?r200 \<and> ok ?r200 \<and> json ?r200 = Inr (JSObject [])
             \<and> fetchRoleSkillMatch_js_then2 (JSObject []) ?st1 = Inl ?te"
    by (simp add: ok_def no_match_throws get_property_object)
  have b: "Inr ?r503 = Inr ?r503 \<and> (status ?r503 < 200 \<or> 299 < status ?r503)"
    by simp
  have c: "skillInfo_js ?st1 = None" by simp
  have d: "Inr ?rno = Inr ?rno \<and> ok ?rno \<and> json ?rno = Inr ?body
             \<and> fetchRoles_js_then2 3 ?body ?st2 = Inl ?te"
    by (simp add: ok_def get_index_def three
        no_skills_throws [of ?body 3 "[(''role_name'', JSString ''Analyst'')]"])
  have e: "data_js ?st2 = None" by simp
  note h1 = read_fetch_failures_absorbed
    [where settled_s = "Inr ?r200" and res_s = ?r200 and apiData_s = "JSObject []" and st_s = ?st1
       and err = ?te and settled_r = "Inr ?rno" and res_r = ?rno and apiData_r = ?body
       and st_r = ?st2 and rid = 3]
  note h2 = read_fetch_failures_absorbed
    [where settled_s = "Inr ?r503" and res_s = ?r503 and st_s = ?st1
       and err = "TypeError ''Failed to fetch''"
       and settled_r = "Inl (TypeError ''Failed to fetch'')" and st_r = ?st2 and rid = 3]
  have r1: "fetchRoleSkillMatch_js (Inr ?r200) ?st1 = Inr (RoleListing_logged ?te ?st1)"
    by (rule h1
          [THEN conjunct2, THEN conjunct2, THEN conjunct2, THEN conjunct2, THEN conjunct1,
           THEN mp, OF a])
  have r2: "snd (RoleListing_render_js (RoleListing_logged ?te ?st1)) = Placeholder"
    by (rule h1
          [THEN conjunct2, THEN conjunct2, THEN conjunct2, THEN conjunct2, THEN conjunct2,
           THEN conjunct2, THEN conjunct2, THEN conjunct2, THEN conjunct2, THEN conjunct1,
           THEN mp, OF c])
  have r3: "fetchRoleSkillMatch_js (Inr ?r503) ?st1
              = Inr (RoleListing_logged (Error ''Network error'') ?st1)"
    by (rule h2 [THEN conjunct2, THEN conjunct2, THEN conjunct1, THEN mp, OF b])
  have r4: "fetchRoles_js 3 (Inl (TypeError ''Failed to fetch'')) ?st2
              = Inr (RolePage_logged (TypeError ''Failed to fetch'') ?st2)"
    by (rule h2
          [THEN conjunct2, THEN conjunct2, THEN conjunct2, THEN conjunct2, THEN conjunct2,
           THEN conjunct2, THEN conjunct2, THEN conjunct2, THEN conjunct2, THEN conjunct2,
           THEN conjunct2, THEN conjunct1, THEN mp, OF refl])
  have r5: "fetchRoles_js 3 (Inr ?rno) ?st2 = Inr (RolePage_logged ?te ?st2)"
    by (rule h1
          [THEN conjunct2, THEN conjunct2, THEN conjunct2, THEN conjunct2, THEN conjunct2,
           THEN conjunct2, THEN conjunct2, THEN conjunct2, THEN conjunct2, THEN conjunct2,
           THEN conjunct2, THEN conjunct2, THEN conjunct2, THEN conjunct2, THEN conjunct1,
           THEN mp, OF d])
  have r6: "RolePage_render_js (RolePage_logged ?te ?st2) = Placeholder"
    by (rule h1
          [THEN conjunct2, THEN conjunct2, THEN conjunct2, THEN conjunct2, THEN conjunct2,
           THEN conjunct2, THEN conjunct2, THEN conjunct2, THEN conjunct2, THEN conjunct2,
           THEN conjunct2, THEN conjunct2, THEN conjunct2, THEN conjunct2, THEN conjunct2,
           THEN conjunct2, THEN conjunct2, THEN conjunct2, THEN mp, OF e])
  from r1 r2 r3 r4 r5 r6 show ?thesis
    by (simp add: RoleListing_logged_def RolePage_logged_def)
qed

text \<open>
  C10. When the \<open>role_listings_info\<close> response is ok and decodes to an object with no entry
  for the requested role listing, the \<open>TypeError\<close> of the field access reaches the
  \<open>.catch\<close>: the chain ends fulfilled, the error is logged once, \<open>data\<close> is as before and
  the page renders what it rendered, the placeholder when \<open>data\<close> was undefined.
\<close>

theorem missing_role_listing_absorbed:
  assumes "ok res" and "json res = Inr apiData" and "apiData rid = None"
  shows "\<exists>st'. fetchRoles rid (Inr res) st = Inr st'
           \<and> console_page st' = console_page st @
                [LogError ''Error fetching role details:''
                   (TypeError ''roleListingData is undefined'')]
           \<and> data st' = data st
           \<and> RolePage_render st' = RolePage_render st
           \<and> (data st = None \<longrightarrow> RolePage_render st' = LoadingPage)"
proof -
  from assms have "then_p (then_p (Inr res) fetchRoles_then1)
                     (\<lambda>apiData. fetchRoles_then2 rid apiData st)
                   = Inl (TypeError ''roleListingData is undefined'')"
    by (simp add: then_p_def fetchRoles_then1_def fetchRoles_then2_def)
  then show ?thesis
    by (simp add: fetchRoles_def catch_p_def fetchRoles_catch_def RolePage_render_def)
qed

text \<open>The response holds role listing 1 only, and the page asks for role listing 3.\<close>

theorem missing_role_listing_absorbed_witness:
  "\<exists>st'. fetchRoles 3
           (Inr \<lparr>status = 200, statusText = ''OK'',
                 json = Inr (Map.empty(1 \<mapsto> \<lparr>role_name = ''Analyst'', role_desc = '''',
                               skills = [], role_department = ''IT'', role_location = ''SG'',
                               role_listing_desc = ''''\<rparr>))\<rparr>)
           \<lparr>data = None, console_page = []\<rparr> = Inr st'
         \<and> console_page st' = [LogError ''Error fetching role details:''
                                  (TypeError ''roleListingData is undefined'')]
         \<and> data st' = None
         \<and> RolePage_render st' = LoadingPage"
proof -
  let ?api = "Map.empty(1 \<mapsto> \<lparr>role_name = ''Analyst'', role_desc = '''',
                               skills = [], role_department = ''IT'', role_location = ''SG'',
                               role_listing_desc = ''''\<rparr>) :: RoleAPIResponse"
  let ?res = "\<lparr>status = 200, statusText = ''OK'', json = Inr ?api\<rparr>"
  have a: "ok ?res" by (simp add: ok_def)
  have b: "json ?res = Inr ?api" by simp
  have c: "?api 3 = None" by simp
  show ?thesis
    using missing_role_listing_absorbed [OF a b c, of "\<lparr>data = None, console_page = []\<rparr>"]
    by auto
qed

subsection \<open>The toolbar\<close>

lemma getColumn_None: "getColumn t k = None \<longleftrightarrow> k \<notin> column_ids t"
  by (auto simp: getColumn_def column_ids_def find_None_iff)

lemma id_or_empty_id: "id_or_empty k = k"
  by (simp add: id_or_empty_def)

lemma search_control_columns:
  "List.map_filter control_column (search_control t c)
     = (if id_s c \<in> column_ids t then [id_s c] else [])"
proof (cases "getColumn t (id_s c)")
  case None
  then show ?thesis
    using getColumn_None [of t "id_s c"]
    by (simp add: search_control_def id_or_empty_id List.map_filter_simps)
next
  case (Some col)
  then show ?thesis
    using getColumn_None [of t "id_s c"]
    by (simp add: search_control_def id_or_empty_id List.map_filter_simps)
qed

lemma filter_control_columns:
  "List.map_filter control_column (filter_control t c)
     = (if id_f c \<in> column_ids t then [id_f c] else [])"
proof (cases "getColumn t (id_f c)")
  case None
  then show ?thesis
    using getColumn_None [of t "id_f c"]
    by (simp add: filter_control_def id_or_empty_id List.map_filter_simps)
next
  case (Some col)
  then show ?thesis
    using getColumn_None [of t "id_f c"]
    by (simp add: filter_control_def id_or_empty_id List.map_filter_simps)
qed

lemma map_filter_append:
  "List.map_filter f (xs @ ys) = List.map_filter f xs @ List.map_filter f ys"
  by (simp add: List.map_filter_def)

lemma search_controls_columns:
  "List.map_filter control_column (concat (map (search_control t) scs))
     = filter (\<lambda>k. k \<in> column_ids t) (map id_s scs)"
  by (induction scs) (simp_all add: List.map_filter_simps map_filter_append search_control_columns)

lemma filter_controls_columns:
  "List.map_filter control_column (concat (map (filter_control t) fcs))
     = filter (\<lambda>k. k \<in> column_ids t) (map id_f fcs)"
  by (induction fcs) (simp_all add: List.map_filter_simps map_filter_append filter_control_columns)

lemma toolbar_columns:
  "List.map_filter control_column (DataTableToolbar t fcs scs)
     = filter (\<lambda>k. k \<in> column_ids t) (map id_s scs)
       @ filter (\<lambda>k. k \<in> column_ids t) (map id_f fcs)"
  by (cases scs; cases fcs)
     (simp_all add: DataTableToolbar_def Let_def map_filter_append List.map_filter_simps
       search_controls_columns [of t "_ # _", simplified]
       filter_controls_columns [of t "_ # _", simplified]
       search_control_columns filter_control_columns
       search_controls_columns filter_controls_columns)

lemma control_column_in_map_filter:
  "ctl \<in> set ctls \<Longrightarrow> control_column ctl = Some k \<Longrightarrow> k \<in> set (List.map_filter control_column ctls)"
  by (force simp: List.map_filter_def)

text \<open>
  C6. The column identifiers of the controls the toolbar renders are the configured
  identifiers of the searchable columns, then of the filterable columns, that the table has
  a column for, in the configured order: an identifier the table has no column for is
  skipped, and a control is rendered for an identifier only if the table has that
  column. The toolbar is a total function of the table and the two configurations.
\<close>

theorem toolbar_controls_only_for_table_columns:
  "List.map_filter control_column (DataTableToolbar t fcs scs)
     = filter (\<lambda>k. k \<in> column_ids t) (map id_s scs)
       @ filter (\<lambda>k. k \<in> column_ids t) (map id_f fcs)
   \<and> (\<forall>ctl \<in> set (DataTableToolbar t fcs scs).
        \<forall>k. control_column ctl = Some k \<longrightarrow> k \<in> column_ids t)"
proof (intro conjI ballI allI impI)
  show "List.map_filter control_column (DataTableToolbar t fcs scs)
     = filter (\<lambda>k. k \<in> column_ids t) (map id_s scs)
       @ filter (\<lambda>k. k \<in> column_ids t) (map id_f fcs)"
    by (rule toolbar_columns)
next
  fix ctl k
  assume "ctl \<in> set (DataTableToolbar t fcs scs)" and "control_column ctl = Some k"
  then have "k \<in> set (List.map_filter control_column (DataTableToolbar t fcs scs))"
    by (rule control_column_in_map_filter)
  then show "k \<in> column_ids t"
    by (auto simp: toolbar_columns)
qed

text \<open>
  A table with the one column \<open>roleName\<close>, configured with a searchable column the table
  has, a searchable column it has not and a filterable column it has not.
\<close>

theorem toolbar_controls_only_for_table_columns_witness:
  "DataTableToolbar
     \<lparr>getAllColumns = [\<lparr>column_id = ''roleName'', getFilterValue = Some ''dev''\<rparr>],
      columnFilters = [(''roleName'', ''dev'')], getRowModel = [10 :: nat, 20]\<rparr>
     [\<lparr>id_f = ''skills'', title_f = ''Skills'', options = []\<rparr>]
     [\<lparr>id_s = ''roleName'', title_s = ''Role''\<rparr>, \<lparr>id_s = ''salary'', title_s = ''Salary''\<rparr>]
     = [Input ''roleName'' ''Filter Role...'' ''dev'', ResetButton]
   \<and> List.map_filter control_column
       (DataTableToolbar
          \<lparr>getAllColumns = [\<lparr>column_id = ''roleName'', getFilterValue = Some ''dev''\<rparr>],
           columnFilters = [(''roleName'', ''dev'')], getRowModel = [10 :: nat, 20]\<rparr>
          [\<lparr>id_f = ''skills'', title_f = ''Skills'', options = []\<rparr>]
          [\<lparr>id_s = ''roleName'', title_s = ''Role''\<rparr>, \<lparr>id_s = ''salary'', title_s = ''Salary''\<rparr>])
       = [''roleName'']
   \<and> ''roleName'' \<in> column_ids
         \<lparr>getAllColumns = [\<lparr>column_id = ''roleName'', getFilterValue = Some ''dev''\<rparr>],
          columnFilters = [(''roleName'', ''dev'')], getRowModel = [10 :: nat, 20]\<rparr>"
proof -
  let ?t = "\<lparr>getAllColumns = [\<lparr>column_id = ''roleName'', getFilterValue = Some ''dev''\<rparr>],
      columnFilters = [(''roleName'', ''dev'')], getRowModel = [10 :: nat, 20]\<rparr>"
  let ?fcs = "[\<lparr>id_f = ''skills'', title_f = ''Skills'', options = []\<rparr>]"
  let ?scs = "[\<lparr>id_s = ''roleName'', title_s = ''Role''\<rparr>, \<lparr>id_s = ''salary'', title_s = ''Salary''\<rparr>]"
  have run: "DataTableToolbar ?t ?fcs ?scs = [Input ''roleName'' ''Filter Role...'' ''dev'', ResetButton]"
    by (simp add: DataTableToolbar_def search_control_def filter_control_def getColumn_def
        id_or_empty_def)
  note h = toolbar_controls_only_for_table_columns [of ?t ?fcs ?scs]
  have cols: "List.map_filter control_column (DataTableToolbar ?t ?fcs ?scs) = [''roleName'']"
    unfolding h [THEN conjunct1] by (simp add: column_ids_def)
  have "Input ''roleName'' ''Filter Role...'' ''dev'' \<in> set (DataTableToolbar ?t ?fcs ?scs)"
    by (simp add: run)
  moreover have "control_column (Input ''roleName'' ''Filter Role...'' ''dev'' :: nat toolbar_control)
                   = Some ''roleName''"
    by simp
  ultimately have "''roleName'' \<in> column_ids ?t"
    using h by blast
  with run cols show ?thesis by simp
qed

subsection \<open>The skill catalogue filter\<close>

lemma setValue_twice: "setValue name v (setValue name v st) = setValue name v st"
  by (simp add: setValue_def)

lemma setValue_skillIdList:
  "(setValue name v st)\<lparr>skillIdList := xs\<rparr> = setValue name v (st\<lparr>skillIdList := xs\<rparr>)"
  by (simp add: setValue_def)

text \<open>
  C7. Running the skill effect again with the same \<open>roleSkillsData\<close> and \<open>allSkills\<close> leaves
  the state as the first run left it. With both defined, \<open>skillIdList\<close> is the catalogue
  restricted, in its order, to the skill ids of \<open>role_skills\<close>, and the form's \<open>skills\<close> field
  holds one option per such skill: the id as a string for its value, the name for its label.
\<close>

theorem skills_effect_idempotent:
  "skills_effect roleSkillsData allSkills (skills_effect roleSkillsData allSkills st)
     = skills_effect roleSkillsData allSkills st
   \<and> skillIdList (skills_effect (Some \<lparr>role_skills = Some rs\<rparr>) (Some catalogue) st)
       = filter (\<lambda>s. skill_id s \<in> skill_id ` set rs) catalogue
   \<and> map_of (form (skills_effect (Some \<lparr>role_skills = Some rs\<rparr>) (Some catalogue) st)) ''skills''
       = Some (FOptions
           (map (\<lambda>s. \<lparr>value_s = Number_toString (skill_id s), label = skill_name s\<rparr>)
              (filter (\<lambda>s. skill_id s \<in> skill_id ` set rs) catalogue)))"
proof (intro conjI)
  show "skills_effect roleSkillsData allSkills (skills_effect roleSkillsData allSkills st)
          = skills_effect roleSkillsData allSkills st"
    by (simp add: skills_effect_def Let_def setValue_twice setValue_skillIdList
        split: option.splits)
next
  show "skillIdList (skills_effect (Some \<lparr>role_skills = Some rs\<rparr>) (Some catalogue) st)
          = filter (\<lambda>s. skill_id s \<in> skill_id ` set rs) catalogue"
    by (simp add: skills_effect_def Let_def setValue_def)
next
  show "map_of (form (skills_effect (Some \<lparr>role_skills = Some rs\<rparr>) (Some catalogue) st)) ''skills''
       = Some (FOptions
           (map (\<lambda>s. \<lparr>value_s = Number_toString (skill_id s), label = skill_name s\<rparr>)
              (filter (\<lambda>s. skill_id s \<in> skill_id ` set rs) catalogue)))"
    by (simp add: skills_effect_def Let_def setValue_def
        update_conv')
qed

text \<open>
  A catalogue of three skills and a role with the first and the third: the effect run once
  and run twice.
\<close>

theorem skills_effect_idempotent_witness:
  "skills_effect
     (Some \<lparr>role_skills = Some [\<lparr>skill_id = 3, skill_name = ''Go''\<rparr>, \<lparr>skill_id = 1, skill_name = ''SQL''\<rparr>]\<rparr>)
     (Some [\<lparr>skill_id = 1, skill_name = ''SQL''\<rparr>, \<lparr>skill_id = 2, skill_name = ''Java''\<rparr>,
            \<lparr>skill_id = 3, skill_name = ''Go''\<rparr>])
     (skills_effect
        (Some \<lparr>role_skills = Some [\<lparr>skill_id = 3, skill_name = ''Go''\<rparr>, \<lparr>skill_id = 1, skill_name = ''SQL''\<rparr>]\<rparr>)
        (Some [\<lparr>skill_id = 1, skill_name = ''SQL''\<rparr>, \<lparr>skill_id = 2, skill_name = ''Java''\<rparr>,
               \<lparr>skill_id = 3, skill_name = ''Go''\<rparr>])
        \<lparr>form = [(''roleName'', FString ''5'')], skillIdList = [], managerDetails = [],
         toasts = [], console_form = [], fetched = []\<rparr>)
   = \<lparr>form = [(''roleName'', FString ''5''),
               (''skills'', FOptions [\<lparr>value_s = ''1'', label = ''SQL''\<rparr>,
                                      \<lparr>value_s = ''3'', label = ''Go''\<rparr>])],
      skillIdList = [\<lparr>skill_id = 1, skill_name = ''SQL''\<rparr>, \<lparr>skill_id = 3, skill_name = ''Go''\<rparr>],
      managerDetails = [], toasts = [], console_form = [], fetched = []\<rparr>"
proof -
  let ?rsd = "Some \<lparr>role_skills = Some [\<lparr>skill_id = 3, skill_name = ''Go''\<rparr>, \<lparr>skill_id = 1, skill_name = ''SQL''\<rparr>]\<rparr>"
  let ?all = "Some [\<lparr>skill_id = 1, skill_name = ''SQL''\<rparr>, \<lparr>skill_id = 2, skill_name = ''Java''\<rparr>,
            \<lparr>skill_id = 3, skill_name = ''Go''\<rparr>]"
  let ?st = "\<lparr>form = [(''roleName'', FString ''5'')], skillIdList = [], managerDetails = [],
         toasts = [], console_form = [], fetched = []\<rparr>"
  have n1: "Number_toString 1 = ''1''" by code_simp
  have n3: "Number_toString 3 = ''3''" by code_simp
  have once: "skills_effect ?rsd ?all ?st
     = \<lparr>form = [(''roleName'', FString ''5''),
               (''skills'', FOptions [\<lparr>value_s = ''1'', label = ''SQL''\<rparr>,
                                      \<lparr>value_s = ''3'', label = ''Go''\<rparr>])],
      skillIdList = [\<lparr>skill_id = 1, skill_name = ''SQL''\<rparr>, \<lparr>skill_id = 3, skill_name = ''Go''\<rparr>],
      managerDetails = [], toasts = [], console_form = [], fetched = []\<rparr>"
    by (simp add: skills_effect_def setValue_def n1 n3)
  from skills_effect_idempotent [of ?rsd ?all ?st]
  have "skills_effect ?rsd ?all (skills_effect ?rsd ?all ?st) = skills_effect ?rsd ?all ?st"
    by (rule conjunct1)
  with once show ?thesis by simp
qed

subsection \<open>The date-range picker\<close>

text \<open>
  C8. A render with a \<open>value\<close> that is not the one the effect last ran with runs the effect:
  afterwards the \<open>date\<close> slice is the new \<open>value\<close>, whatever it was, and the button shows what
  a picker mounted with that \<open>value\<close> shows. No call of \<open>handleDateChange\<close> is involved.
\<close>

theorem date_picker_follows_value:
  assumes "\<not> Object_is v (effect_deps st)"
  shows "date (DatePicker_render v st) = v
         \<and> effect_deps (DatePicker_render v st) = v
         \<and> DatePicker_label fmt (DatePicker_render v st) = DatePicker_label fmt (DatePicker_mount v)"
  using assms by (simp add: DatePicker_render_def DatePicker_label_def DatePicker_mount_def)

text \<open>
  A picker mounted with no value, in which the user then picked a range, receives a range
  from its parent.
\<close>

theorem date_picker_follows_value_witness:
  "date (DatePicker_render
           (Some \<lparr>ref = 2,
                  from_d = Some \<lparr>getUTCFullYear = 2023, getUTCMonth = 9, getUTCDate = 5,
                                  getUTCHours = 0, getUTCMinutes = 0, getUTCSeconds = 0\<rparr>,
                  to_d = None\<rparr>)
           (fst (handleDateChange False
                   (Some \<lparr>ref = 1,
                          from_d = Some \<lparr>getUTCFullYear = 2023, getUTCMonth = 0, getUTCDate = 1,
                                          getUTCHours = 0, getUTCMinutes = 0, getUTCSeconds = 0\<rparr>,
                          to_d = None\<rparr>)
                   (DatePicker_mount None))))
   = Some \<lparr>ref = 2,
           from_d = Some \<lparr>getUTCFullYear = 2023, getUTCMonth = 9, getUTCDate = 5,
                           getUTCHours = 0, getUTCMinutes = 0, getUTCSeconds = 0\<rparr>,
           to_d = None\<rparr>
   \<and> DatePicker_label formatDateToISOWithoutZ
       (DatePicker_render
           (Some \<lparr>ref = 2,
                  from_d = Some \<lparr>getUTCFullYear = 2023, getUTCMonth = 9, getUTCDate = 5,
                                  getUTCHours = 0, getUTCMinutes = 0, getUTCSeconds = 0\<rparr>,
                  to_d = None\<rparr>)
           (fst (handleDateChange False
                   (Some \<lparr>ref = 1,
                          from_d = Some \<lparr>getUTCFullYear = 2023, getUTCMonth = 0, getUTCDate = 1,
                                          getUTCHours = 0, getUTCMinutes = 0, getUTCSeconds = 0\<rparr>,
                          to_d = None\<rparr>)
                   (DatePicker_mount None))))
     = ''2023-10-05T00:00:00''"
proof -
  let ?v = "Some \<lparr>ref = 2,
                  from_d = Some \<lparr>getUTCFullYear = 2023, getUTCMonth = 9, getUTCDate = 5,
                                  getUTCHours = 0, getUTCMinutes = 0, getUTCSeconds = 0\<rparr>,
                  to_d = None\<rparr>"
  let ?st = "fst (handleDateChange False
                   (Some \<lparr>ref = 1,
                          from_d = Some \<lparr>getUTCFullYear = 2023, getUTCMonth = 0, getUTCDate = 1,
                                          getUTCHours = 0, getUTCMinutes = 0, getUTCSeconds = 0\<rparr>,
                          to_d = None\<rparr>)
                   (DatePicker_mount None))"
  have changed: "\<not> Object_is ?v (effect_deps ?st)"
    by (simp add: Object_is_def handleDateChange_def DatePicker_mount_def)
  have shown: "DatePicker_label formatDateToISOWithoutZ (DatePicker_mount ?v) = ''2023-10-05T00:00:00''"
    by code_simp
  from date_picker_follows_value [OF changed, of formatDateToISOWithoutZ] shown
  show ?thesis by simp
qed

subsection \<open>The create-role request\<close>

lemma onSubmit_fetched:
  "fetched (onSubmit staffId userRole d st) = fetched st @ [onSubmit_request staffId userRole d]"
  by (simp add: onSubmit_def)

lemma role_listing_open_field:
  "map_of (transformedData staffId d) ''role_listing_open''
     = Some (JString (formatDateToISOWithoutZ (startDate d)))"
  by (simp add: transformedData_def)

text \<open>
  C2. The code breaks the claim where the UTC year of the start date has fewer or more than
  four digits: \<open>formatDateToISOWithoutZ\<close> pads the month, the day, the hours, the minutes
  and the seconds to two digits and writes the year as it is. For a start date of
  1 January 999, 00:00:00 UTC, the one POST that \<open>onSubmit\<close> issues carries the
  \<open>role_listing_open\<close> \<open>999-01-01T00:00:00\<close>, which is not of the form \<open>YYYY-MM-DDTHH:mm:ss\<close>.
\<close>

theorem year_999_is_not_padded:
  "valid_Date \<lparr>getUTCFullYear = 999, getUTCMonth = 0, getUTCDate = 1, getUTCHours = 0,
               getUTCMinutes = 0, getUTCSeconds = 0\<rparr>
   \<and> fetched (onSubmit 7 (Some ''hr'')
        \<lparr>listingId = 11, roleName = ''3'', roleDescription = ''Analyst'', roleManager = ''42'',
         location = ''SG'', departments = ''IT'', skills_f = [],
         startDate = \<lparr>getUTCFullYear = 999, getUTCMonth = 0, getUTCDate = 1, getUTCHours = 0,
                       getUTCMinutes = 0, getUTCSeconds = 0\<rparr>\<rparr>
        \<lparr>form = [], skillIdList = [], managerDetails = [], toasts = [], console_form = [],
         fetched = []\<rparr>)
     = [\<lparr>url = ''/api/role/role_listing'', http_method = ''POST'',
         headers = [(''Content-Type'', ''application/json''), (''role'', ''hr'')],
         body = Some [(''role_listing_id'', JNumber 11), (''role_id'', JNumber 3),
                      (''role_listing_desc'', JString ''Analyst''),
                      (''role_listing_source'', JNumber 42),
                      (''role_listing_open'', JString ''999-01-01T00:00:00''),
                      (''role_listing_creator'', JNumber 7),
                      (''role_department'', JString ''IT''),
                      (''role_location'', JString ''SG'')]\<rparr>]
   \<and> \<not> matches_mask iso_naive_mask ''999-01-01T00:00:00''"
  by code_simp

text \<open>
  Within the years 1000 to 9999 the string is of that form, its digits are those of the
  date's UTC fields, and in every year it does not end in \<open>Z\<close>.
\<close>

lemma two_digit_pad_digits:
  assumes "0 \<le> i" and "i \<le> 99"
  shows "padStart (Number_toString i) 2 ''0''
           = [digit_char (nat i div 10), digit_char (nat i mod 10)]"
proof (cases "i < 10")
  case True
  with assms have "nat_toString (nat i) = [digit_char (nat i)]"
    by (simp add: nat_toString_1)
  moreover from True assms have "nat i div 10 = 0" by simp
  moreover have "digit_char 0 = CHR ''0''" by (simp add: digit_char_def)
  moreover have "digit_char (nat i mod 10) = digit_char (nat i)" by (simp add: digit_char_def)
  ultimately show ?thesis
    using assms by (simp add: Number_toString_def padStart_def)
next
  case False
  with assms have "10 \<le> nat i" and "nat i < 100" by simp_all
  from nat_toString_2 [OF this] assms show ?thesis
    by (simp add: Number_toString_def padStart_def)
qed

lemma create_role_date_in_range:
  assumes "valid_Date d" and "1000 \<le> getUTCFullYear d" and "getUTCFullYear d \<le> 9999"
  shows "formatDateToISOWithoutZ d
           = [digit_char (nat (getUTCFullYear d) div 10 div 10 div 10),
              digit_char (nat (getUTCFullYear d) div 10 div 10 mod 10),
              digit_char (nat (getUTCFullYear d) div 10 mod 10),
              digit_char (nat (getUTCFullYear d) mod 10), CHR ''-'',
              digit_char (nat (getUTCMonth d + 1) div 10),
              digit_char (nat (getUTCMonth d + 1) mod 10), CHR ''-'',
              digit_char (nat (getUTCDate d) div 10),
              digit_char (nat (getUTCDate d) mod 10), CHR ''T'',
              digit_char (nat (getUTCHours d) div 10),
              digit_char (nat (getUTCHours d) mod 10), CHR '':'',
              digit_char (nat (getUTCMinutes d) div 10),
              digit_char (nat (getUTCMinutes d) mod 10), CHR '':'',
              digit_char (nat (getUTCSeconds d) div 10),
              digit_char (nat (getUTCSeconds d) mod 10)]"
    and "matches_mask iso_naive_mask (formatDateToISOWithoutZ d)"
    and "\<not> suffix ''Z'' (formatDateToISOWithoutZ d)"
proof -
  from assms have y: "1000 \<le> nat (getUTCFullYear d)" "nat (getUTCFullYear d) < 10000"
    by simp_all
  from assms(2) have "Number_toString (getUTCFullYear d) = nat_toString (nat (getUTCFullYear d))"
    by (simp add: Number_toString_def)
  with nat_toString_4 [OF y] assms(1)
  show "formatDateToISOWithoutZ d
           = [digit_char (nat (getUTCFullYear d) div 10 div 10 div 10),
              digit_char (nat (getUTCFullYear d) div 10 div 10 mod 10),
              digit_char (nat (getUTCFullYear d) div 10 mod 10),
              digit_char (nat (getUTCFullYear d) mod 10), CHR ''-'',
              digit_char (nat (getUTCMonth d + 1) div 10),
              digit_char (nat (getUTCMonth d + 1) mod 10), CHR ''-'',
              digit_char (nat (getUTCDate d) div 10),
              digit_char (nat (getUTCDate d) mod 10), CHR ''T'',
              digit_char (nat (getUTCHours d) div 10),
              digit_char (nat (getUTCHours d) mod 10), CHR '':'',
              digit_char (nat (getUTCMinutes d) div 10),
              digit_char (nat (getUTCMinutes d) mod 10), CHR '':'',
              digit_char (nat (getUTCSeconds d) div 10),
              digit_char (nat (getUTCSeconds d) mod 10)]"
    by (simp add: formatDateToISOWithoutZ_def valid_Date_def two_digit_pad_digits)
  from assms show "matches_mask iso_naive_mask (formatDateToISOWithoutZ d)"
    by (rule formatDate_mask)
  from assms(1) show "\<not> suffix ''Z'' (formatDateToISOWithoutZ d)"
    by (rule formatDate_no_Z)
qed

text \<open>
  C9. A submission issues one POST, and its body has exactly the eight fields of the
  endpoint, in this order, and none for the skills: changing the skills selected in the
  form changes nothing of what \<open>onSubmit\<close> does. \<open>role_id\<close> and \<open>role_listing_source\<close> are
  \<open>parseInt(roleName, 10)\<close> and \<open>parseInt(roleManager, 10)\<close> as \<open>JSON.stringify\<close> writes
  them; when the form values are the strings of whole numbers below \<open>2 ^ 53\<close> in
  magnitude, as the values of the two comboboxes are, they are those numbers.
\<close>

theorem create_role_body_fields:
  "fetched (onSubmit staffId userRole d st)
     = fetched st @ [onSubmit_request staffId userRole d]
   \<and> http_method (onSubmit_request staffId userRole d) = ''POST''
   \<and> url (onSubmit_request staffId userRole d) = ''/api/role/role_listing''
   \<and> body (onSubmit_request staffId userRole d) = Some (transformedData staffId d)
   \<and> map fst (transformedData staffId d)
       = [''role_listing_id'', ''role_id'', ''role_listing_desc'', ''role_listing_source'',
          ''role_listing_open'', ''role_listing_creator'', ''role_department'',
          ''role_location'']
   \<and> map_of (transformedData staffId d) ''role_id''
       = Some (JSON_number (parseInt (roleName d)))
   \<and> map_of (transformedData staffId d) ''role_listing_source''
       = Some (JSON_number (parseInt (roleManager d)))
   \<and> (roleName d = Number_toString rid \<and> - (2 ^ 53) < rid \<and> rid < 2 ^ 53
        \<longrightarrow> map_of (transformedData staffId d) ''role_id'' = Some (JNumber rid))
   \<and> (roleManager d = Number_toString mid \<and> - (2 ^ 53) < mid \<and> mid < 2 ^ 53
        \<longrightarrow> map_of (transformedData staffId d) ''role_listing_source'' = Some (JNumber mid))
   \<and> onSubmit staffId userRole (d\<lparr>skills_f := sk\<rparr>) st = onSubmit staffId userRole d st"
proof (intro conjI impI)
  show "fetched (onSubmit staffId userRole d st)
          = fetched st @ [onSubmit_request staffId userRole d]"
    by (rule onSubmit_fetched)
  show "http_method (onSubmit_request staffId userRole d) = ''POST''"
    and "url (onSubmit_request staffId userRole d) = ''/api/role/role_listing''"
    and "body (onSubmit_request staffId userRole d) = Some (transformedData staffId d)"
    by (simp_all add: onSubmit_request_def)
  show "map fst (transformedData staffId d)
       = [''role_listing_id'', ''role_id'', ''role_listing_desc'', ''role_listing_source'',
          ''role_listing_open'', ''role_listing_creator'', ''role_department'',
          ''role_location'']"
    and "map_of (transformedData staffId d) ''role_id''
       = Some (JSON_number (parseInt (roleName d)))"
    and "map_of (transformedData staffId d) ''role_listing_source''
       = Some (JSON_number (parseInt (roleManager d)))"
    by (simp_all add: transformedData_def)
  show "onSubmit staffId userRole (d\<lparr>skills_f := sk\<rparr>) st = onSubmit staffId userRole d st"
    by (simp add: onSubmit_def onSubmit_request_def transformedData_def)
next
  assume "roleName d = Number_toString rid \<and> - (2 ^ 53) < rid \<and> rid < 2 ^ 53"
  then show "map_of (transformedData staffId d) ''role_id'' = Some (JNumber rid)"
    by (simp add: transformedData_def parseInt_Number_toString JSON_number_def)
next
  assume "roleManager d = Number_toString mid \<and> - (2 ^ 53) < mid \<and> mid < 2 ^ 53"
  then show "map_of (transformedData staffId d) ''role_listing_source'' = Some (JNumber mid)"
    by (simp add: transformedData_def parseInt_Number_toString JSON_number_def)
qed

text \<open>
  Role 3 and manager 42 selected in the comboboxes, and two skills in the multi-select: the
  POST that is issued.
\<close>

theorem create_role_body_fields_witness:
  "fetched (onSubmit 7 (Some ''hr'')
        \<lparr>listingId = 11, roleName = ''3'', roleDescription = ''Analyst'', roleManager = ''42'',
         location = ''SG'', departments = ''IT'',
         skills_f = [\<lparr>value_s = ''1'', label = ''SQL''\<rparr>, \<lparr>value_s = ''2'', label = ''Go''\<rparr>],
         startDate = \<lparr>getUTCFullYear = 2023, getUTCMonth = 9, getUTCDate = 5, getUTCHours = 0,
                       getUTCMinutes = 7, getUTCSeconds = 59\<rparr>\<rparr>
        \<lparr>form = [], skillIdList = [], managerDetails = [], toasts = [], console_form = [],
         fetched = []\<rparr>)
     = [onSubmit_request 7 (Some ''hr'')
        \<lparr>listingId = 11, roleName = ''3'', roleDescription = ''Analyst'', roleManager = ''42'',
         location = ''SG'', departments = ''IT'',
         skills_f = [\<lparr>value_s = ''1'', label = ''SQL''\<rparr>, \<lparr>value_s = ''2'', label = ''Go''\<rparr>],
         startDate = \<lparr>getUTCFullYear = 2023, getUTCMonth = 9, getUTCDate = 5, getUTCHours = 0,
                       getUTCMinutes = 7, getUTCSeconds = 59\<rparr>\<rparr>]
   \<and> map fst (transformedData 7
        \<lparr>listingId = 11, roleName = ''3'', roleDescription = ''Analyst'', roleManager = ''42'',
         location = ''SG'', departments = ''IT'',
         skills_f = [\<lparr>value_s = ''1'', label = ''SQL''\<rparr>, \<lparr>value_s = ''2'', label = ''Go''\<rparr>],
         startDate = \<lparr>getUTCFullYear = 2023, getUTCMonth = 9, getUTCDate = 5, getUTCHours = 0,
                       getUTCMinutes = 7, getUTCSeconds = 59\<rparr>\<rparr>)
     = [''role_listing_id'', ''role_id'', ''role_listing_desc'', ''role_listing_source'',
        ''role_listing_open'', ''role_listing_creator'', ''role_department'', ''role_location'']
   \<and> map_of (transformedData 7
        \<lparr>listingId = 11, roleName = ''3'', roleDescription = ''Analyst'', roleManager = ''42'',
         location = ''SG'', departments = ''IT'',
         skills_f = [\<lparr>value_s = ''1'', label = ''SQL''\<rparr>, \<lparr>value_s = ''2'', label = ''Go''\<rparr>],
         startDate = \<lparr>getUTCFullYear = 2023, getUTCMonth = 9, getUTCDate = 5, getUTCHours = 0,
                       getUTCMinutes = 7, getUTCSeconds = 59\<rparr>\<rparr>) ''role_id'' = Some (JNumber 3)
   \<and> map_of (transformedData 7
        \<lparr>listingId = 11, roleName = ''3'', roleDescription = ''Analyst'', roleManager = ''42'',
         location = ''SG'', departments = ''IT'',
         skills_f = [\<lparr>value_s = ''1'', label = ''SQL''\<rparr>, \<lparr>value_s = ''2'', label = ''Go''\<rparr>],
         startDate = \<lparr>getUTCFullYear = 2023, getUTCMonth = 9, getUTCDate = 5, getUTCHours = 0,
                       getUTCMinutes = 7, getUTCSeconds = 59\<rparr>\<rparr>) ''role_listing_source''
       = Some (JNumber 42)"
proof -
  let ?d = "\<lparr>listingId = 11, roleName = ''3'', roleDescription = ''Analyst'', roleManager = ''42'',
         location = ''SG'', departments = ''IT'',
         skills_f = [\<lparr>value_s = ''1'', label = ''SQL''\<rparr>, \<lparr>value_s = ''2'', label = ''Go''\<rparr>],
         startDate = \<lparr>getUTCFullYear = 2023, getUTCMonth = 9, getUTCDate = 5, getUTCHours = 0,
                       getUTCMinutes = 7, getUTCSeconds = 59\<rparr>\<rparr>"
  let ?st = "\<lparr>form = [], skillIdList = [], managerDetails = [], toasts = [], console_form = [],
         fetched = []\<rparr>"
  have "roleName ?d = Number_toString 3" by code_simp
  then have r: "roleName ?d = Number_toString 3 \<and> - (2 ^ 53) < (3 :: int) \<and> (3 :: int) < 2 ^ 53"
    by simp
  have "roleManager ?d = Number_toString 42" by code_simp
  then have m: "roleManager ?d = Number_toString 42 \<and> - (2 ^ 53) < (42 :: int)
                  \<and> (42 :: int) < 2 ^ 53"
    by simp
  note h = create_role_body_fields [of 7 "Some ''hr''" ?d ?st 3 42]
  have one: "fetched (onSubmit 7 (Some ''hr'') ?d ?st)
               = fetched ?st @ [onSubmit_request 7 (Some ''hr'') ?d]"
    by (rule h [THEN conjunct1])
  note h4 = h [THEN conjunct2, THEN conjunct2, THEN conjunct2, THEN conjunct2]
  have keys: "map fst (transformedData 7 ?d)
     = [''role_listing_id'', ''role_id'', ''role_listing_desc'', ''role_listing_source'',
        ''role_listing_open'', ''role_listing_creator'', ''role_department'', ''role_location'']"
    by (rule h4 [THEN conjunct1])
  note h7 = h4 [THEN conjunct2, THEN conjunct2, THEN conjunct2]
  have rid: "map_of (transformedData 7 ?d) ''role_id'' = Some (JNumber 3)"
    by (rule h7 [THEN conjunct1, THEN mp, OF r])
  have mid: "map_of (transformedData 7 ?d) ''role_listing_source'' = Some (JNumber 42)"
    by (rule h7 [THEN conjunct2, THEN conjunct1, THEN mp, OF m])
  from one have one': "fetched (onSubmit 7 (Some ''hr'') ?d ?st) = [onSubmit_request 7 (Some ''hr'') ?d]"
    by simp
  from one' keys rid mid show ?thesis
    by (intro conjI)
qed

end
